theory Spec2Isabelle
  imports Complex_Main
begin

section \<open>Values shared by the handlers, the overlay and the router utilities\<close>

text \<open>
  A JavaScript \<open>number\<close> is modelled by a real number: the properties below are about
  which quantity is computed, not about binary rounding. \<open>Math.round\<close> rounds half up.
  A cell is an object identity; identities are natural numbers.
\<close>

type_synonym cell = nat

record point =
  px :: real
  py :: real

record rectangle =
  rx :: real
  ry :: real
  width :: real
  height :: real

definition math_round :: "real \<Rightarrow> real" where
  "math_round v = of_int \<lfloor>v + 1 / 2\<rfloor>"

text \<open>
  \<open>Array.prototype.splice(start, deleteCount, ...items)\<close>: a negative start counts from
  the end, both numbers are clamped to the array, the removed run is replaced by the items.
\<close>

definition js_splice :: "int \<Rightarrow> int \<Rightarrow> 'a list \<Rightarrow> 'a list \<Rightarrow> 'a list" where
  "js_splice start deleteCount items xs =
     (let len = int (length xs);
          s = (if start < 0 then max (len + start) 0 else min start len);
          d = min (max deleteCount 0) (len - s)
      in take (nat s) xs @ items @ drop (nat (s + d)) xs)"

section \<open>The cell model as the edge handler uses it\<close>

text \<open>
  A JavaScript array is a list of slots: \<open>None\<close> is a hole, an index below the length
  that was never assigned and reads as \<open>undefined\<close>.
  An edge geometry carries the optional waypoint list (\<open>geo.points\<close>, possibly null),
  the two terminal points used by dangling ends, and for the label its bounds, its offset
  and whether they are relative to the path. \<open>geo.clone()\<close> is a copy of the value.
  The model maps a cell to its geometry (null when it has none) and an edge end to the
  connected terminal.
\<close>

type_synonym 'a jsarray = "'a option list"

record geometry =
  points :: "point jsarray option"
  sourcePoint :: "point option"
  targetPoint :: "point option"
  gbounds :: rectangle
  goffset :: "point option"
  relative :: bool

record model =
  geometryOf :: "cell \<Rightarrow> geometry option"
  terminalOf :: "cell \<Rightarrow> bool \<Rightarrow> cell option"

definition setGeometry :: "cell \<Rightarrow> geometry \<Rightarrow> model \<Rightarrow> model" where
  "setGeometry c g m = m\<lparr>geometryOf := (geometryOf m)(c := Some g)\<rparr>"

subsection \<open>EdgeHandler.removePoint\<close>

text \<open>
  \<open>removePoint(state, index)\<close> reads the handler's own \<open>absolutePoints\<close> and the geometry
  of \<open>this.state.cell\<close>, and writes the geometry of the cell of the state it is given. The
  arguments are those absolute points, the two cells, the index and the model; the result
  is the model and whether \<open>refresh()\<close> and \<open>redraw()\<close> ran.
\<close>

definition removePoint ::
  "point list \<Rightarrow> cell \<Rightarrow> cell \<Rightarrow> int \<Rightarrow> model \<Rightarrow> model \<times> bool" where
  "removePoint absPoints thisCell argCell idx m =
     (if idx > 0 \<and> idx < int (length absPoints) - 1 then
        (case geometryOf m thisCell of
           None \<Rightarrow> (m, False)
         | Some geo \<Rightarrow>
             (case points geo of
                None \<Rightarrow> (m, False)
              | Some ps \<Rightarrow>
                  (setGeometry argCell
                     (geo\<lparr>points := Some (js_splice (idx - 1) 1 [] ps)\<rparr>) m, True)))
      else (m, False))"

section \<open>Overlay.getBounds\<close>

text \<open>
  The view's state of a cell, as the overlay and the perimeter functions read it:
  whether the cell is an edge (\<open>state.cell.isEdge()\<close>), \<open>state.view.scale\<close>, the bounds,
  the absolute points and the style (a dictionary whose keys are optional; the keys the
  sources read are its fields). Reading a property of \<open>undefined\<close> throws a TypeError.
\<close>

datatype jserror = TypeError

record image =
  imgWidth :: real
  imgHeight :: real

record overlay =
  img :: image
  align :: "string option"
  verticalAlign :: "string option"
  offset :: point
  defaultOverlap :: real

record style =
  exitX :: "real option"
  exitY :: "real option"
  entryX :: "real option"
  entryY :: "real option"
  factor :: "real option"

record cstate =
  cellIsEdge :: bool
  viewScale :: real
  bounds :: rectangle
  absolutePoints :: "point list"
  style :: style

definition getBounds :: "overlay \<Rightarrow> cstate \<Rightarrow> jserror + rectangle" where
  "getBounds ov st =
     (let s = viewScale st;
          w = imgWidth (img ov);
          h = imgHeight (img ov);
          pts = absolutePoints st;
          n = length pts;
          pt =
            (if cellIsEdge st then
               (if n mod 2 = 1 then Inr (pts ! (n div 2))
                else if n = 0 then Inl TypeError
                else
                  (let idx = n div 2; p0 = pts ! (idx - 1); p1 = pts ! idx
                   in Inr \<lparr>px = px p0 + (px p1 - px p0) / 2,
                           py = py p0 + (py p1 - py p0) / 2\<rparr>))
             else
               Inr \<lparr>px = (if align ov = Some ''left'' then rx (bounds st)
                          else if align ov = Some ''center''
                          then rx (bounds st) + width (bounds st) / 2
                          else rx (bounds st) + width (bounds st)),
                    py = (if verticalAlign ov = Some ''top'' then ry (bounds st)
                          else if verticalAlign ov = Some ''middle''
                          then ry (bounds st) + height (bounds st) / 2
                          else ry (bounds st) + height (bounds st))\<rparr>)
      in case pt of
           Inl e \<Rightarrow> Inl e
         | Inr a \<Rightarrow>
             Inr \<lparr>rx = math_round (px a - (w * defaultOverlap ov - px (offset ov)) * s),
                  ry = math_round (py a - (h * defaultOverlap ov - py (offset ov)) * s),
                  width = w * s,
                  height = h * s\<rparr>)"

text \<open>
  The placement the description of the overlay gives for an anchor point: the image
  scaled, its origin at the anchor minus the overlap less the offset, scaled, and rounded.
\<close>

definition overlayAt :: "overlay \<Rightarrow> real \<Rightarrow> point \<Rightarrow> rectangle" where
  "overlayAt ov s a =
     \<lparr>rx = math_round (px a - (imgWidth (img ov) * defaultOverlap ov - px (offset ov)) * s),
      ry = math_round (py a - (imgHeight (img ov) * defaultOverlap ov - py (offset ov)) * s),
      width = imgWidth (img ov) * s,
      height = imgHeight (img ov) * s\<rparr>"

definition midpoint_of :: "point \<Rightarrow> point \<Rightarrow> point" where
  "midpoint_of p0 p1 = \<lparr>px = (px p0 + px p1) / 2, py = (py p0 + py p1) / 2\<rparr>"

section \<open>Router endpoint utilities and the callout perimeter\<close>

text \<open>
  A \<open>Rectangle\<close> is a mutable object. The store maps a reference to the fields of the
  rectangle it names; \<open>fresh\<close> is the next reference \<open>new\<close> hands out. An edge view holds
  its two resolved endpoints (null until resolved) and references to its terminals'
  bounding boxes.
\<close>

type_synonym ref = nat

record store =
  rects :: "ref \<Rightarrow> rectangle"
  fresh :: ref

record edgeView =
  sourceEndpoint :: "point option"
  targetEndpoint :: "point option"
  sourceBBox :: ref
  targetBBox :: ref

text \<open>
  \<open>NumberExt.SideOptions\<close> is a number or an object with optional sides;
  \<open>PaddingOptions.padding\<close> is optional.
\<close>

record sideObject =
  sVertical :: "real option"
  sHorizontal :: "real option"
  sTop :: "real option"
  sRight :: "real option"
  sBottom :: "real option"
  sLeft :: "real option"

datatype sideOptions = SideNumber real | SideObject sideObject

record sides =
  topSide :: real
  rightSide :: real
  bottomSide :: real
  leftSide :: real

text \<open>
  Modelled from the spec: \<open>NumberExt.normalizeSides\<close> and the \<open>Rectangle\<close> class
  (\<open>clone\<close>, \<open>moveAndExpand\<close>, \<open>getCenter\<close>) are not among the sources. A number is the
  value of every side; an object gives \<open>vertical\<close> to top and bottom, \<open>horizontal\<close> to
  left and right, then each side named on its own, a side never named being 0.
  \<open>clone\<close> makes a new rectangle with the same fields, \<open>moveAndExpand\<close> adds the given
  x, y, width and height to the receiver's and returns the receiver, \<open>getCenter\<close> is the
  point in the middle.
\<close>

definition orElse :: "'a option \<Rightarrow> 'a \<Rightarrow> 'a" where
  "orElse v d = (case v of None \<Rightarrow> d | Some a \<Rightarrow> a)"

definition normalizeSides :: "sideOptions \<Rightarrow> sides" where
  "normalizeSides box =
     (case box of
        SideNumber n \<Rightarrow> \<lparr>topSide = n, rightSide = n, bottomSide = n, leftSide = n\<rparr>
      | SideObject b \<Rightarrow>
          \<lparr>topSide = orElse (sTop b) (orElse (sVertical b) 0),
           rightSide = orElse (sRight b) (orElse (sHorizontal b) 0),
           bottomSide = orElse (sBottom b) (orElse (sVertical b) 0),
           leftSide = orElse (sLeft b) (orElse (sHorizontal b) 0)\<rparr>)"

definition alloc :: "rectangle \<Rightarrow> store \<Rightarrow> ref \<times> store" where
  "alloc r s = (fresh s, s\<lparr>rects := (rects s)(fresh s := r), fresh := Suc (fresh s)\<rparr>)"

definition rect_clone :: "ref \<Rightarrow> store \<Rightarrow> ref \<times> store" where
  "rect_clone r s = alloc (rects s r) s"

definition moveAndExpand :: "ref \<Rightarrow> rectangle \<Rightarrow> store \<Rightarrow> ref \<times> store" where
  "moveAndExpand r box s =
     (r, s\<lparr>rects := (rects s)(r :=
            \<lparr>rx = rx (rects s r) + rx box, ry = ry (rects s r) + ry box,
             width = width (rects s r) + width box,
             height = height (rects s r) + height box\<rparr>)\<rparr>)"

definition getCenter :: "ref \<Rightarrow> store \<Rightarrow> point" where
  "getCenter r s =
     \<lparr>px = rx (rects s r) + width (rects s r) / 2,
      py = ry (rects s r) + height (rects s r) / 2\<rparr>"

text \<open>
  \<open>options.padding || 20\<close>: a missing padding and the number 0 are falsy and give 20;
  an object is truthy.
\<close>

definition paddingOr20 :: "sideOptions option \<Rightarrow> sideOptions" where
  "paddingOr20 padding =
     (case padding of
        None \<Rightarrow> SideNumber 20
      | Some (SideNumber n) \<Rightarrow> (if n = 0 then SideNumber 20 else SideNumber n)
      | Some (SideObject b) \<Rightarrow> SideObject b)"

definition getPaddingBox :: "sideOptions option \<Rightarrow> rectangle" where
  "getPaddingBox padding =
     (let sides = normalizeSides (paddingOr20 padding)
      in \<lparr>rx = - leftSide sides, ry = - topSide sides,
          width = leftSide sides + rightSide sides,
          height = topSide sides + bottomSide sides\<rparr>)"

definition getSourceBBox :: "edgeView \<Rightarrow> sideOptions option \<Rightarrow> store \<Rightarrow> ref \<times> store" where
  "getSourceBBox view padding s =
     (case rect_clone (sourceBBox view) s of
        (r, s1) \<Rightarrow> moveAndExpand r (getPaddingBox padding) s1)"

definition getTargetBBox :: "edgeView \<Rightarrow> sideOptions option \<Rightarrow> store \<Rightarrow> ref \<times> store" where
  "getTargetBBox view padding s =
     (case rect_clone (targetBBox view) s of
        (r, s1) \<Rightarrow> moveAndExpand r (getPaddingBox padding) s1)"

definition getSourceEndpoint :: "edgeView \<Rightarrow> sideOptions option \<Rightarrow> store \<Rightarrow> point \<times> store" where
  "getSourceEndpoint view padding s =
     (case sourceEndpoint view of
        Some p \<Rightarrow> (p, s)
      | None \<Rightarrow> (case getSourceBBox view padding s of (bbox, s1) \<Rightarrow> (getCenter bbox s1, s1)))"

definition getTargetEndpoint :: "edgeView \<Rightarrow> sideOptions option \<Rightarrow> store \<Rightarrow> point \<times> store" where
  "getTargetEndpoint view padding s =
     (case targetEndpoint view of
        Some p \<Rightarrow> (p, s)
      | None \<Rightarrow> (case getTargetBBox view padding s of (bbox, s1) \<Rightarrow> (getCenter bbox s1, s1)))"

text \<open>
  What the description of the endpoints speaks of: a box grown by the sides of a padding,
  and the centre of a box.
\<close>

definition expandBy :: "rectangle \<Rightarrow> sides \<Rightarrow> rectangle" where
  "expandBy b p =
     \<lparr>rx = rx b - leftSide p, ry = ry b - topSide p,
      width = width b + leftSide p + rightSide p,
      height = height b + topSide p + bottomSide p\<rparr>"

definition centerOf :: "rectangle \<Rightarrow> point" where
  "centerOf b = \<lparr>px = rx b + width b / 2, py = ry b + height b / 2\<rparr>"

text \<open>The padding as the description of the endpoints gives it: 20 when none is given.\<close>

definition paddingOrDefault :: "sideOptions option \<Rightarrow> sideOptions" where
  "paddingOrDefault padding = (case padding of None \<Rightarrow> SideNumber 20 | Some b \<Rightarrow> b)"

text \<open>
  \<open>calloutPerimeter\<close>. Its helpers \<open>getFactor\<close>, \<open>util.getDirectedBounds\<close> and
  \<open>rectanglePerimeter\<close> are not among the sources and are parameters, as is the value
  read at \<open>CalloutShape.prototype.factor\<close>.
\<close>

record perimeterEnv =
  getFactor :: "style \<Rightarrow> real option \<Rightarrow> real \<Rightarrow> real"
  getDirectedBounds :: "rectangle \<Rightarrow> rectangle \<Rightarrow> style \<Rightarrow> rectangle"
  rectanglePerimeter :: "rectangle \<Rightarrow> cstate \<Rightarrow> point \<Rightarrow> bool \<Rightarrow> point"
  protoFactor :: "real option"

definition calloutPerimeter ::
  "perimeterEnv \<Rightarrow> rectangle \<Rightarrow> cstate \<Rightarrow> point \<Rightarrow> bool \<Rightarrow> point" where
  "calloutPerimeter env bnds state nxt orthogonal =
     (let fct = getFactor env (style state) (protoFactor env) (height bnds);
          rect = \<lparr>rx = 0, ry = 0, width = 0, height = fct * viewScale state\<rparr>;
          directedBounds = getDirectedBounds env bnds rect (style state)
      in rectanglePerimeter env directedBounds state nxt orthogonal)"

section \<open>The hook decorator\<close>

text \<open>
  The graph a method runs on: whether it has the own property \<open>getNativeValue\<close>, and the
  rest of its state, of any type. A method takes the arguments and the graph and gives its
  result (\<open>None\<close> for null or undefined) and the graph it leaves. A hook is called with
  the graph as \<open>this\<close>; while it runs, \<open>this.getNativeValue\<close> is the original method bound
  to the graph and the arguments, which the model hands to the hook as its first argument.
  \<open>this.options\<close> maps a name to a hook or to nothing.
\<close>

record 'g graph =
  nativeValue :: bool
  content :: 'g

type_synonym ('a, 'r, 'g) graphMethod = "'a list \<Rightarrow> 'g graph \<Rightarrow> 'r option \<times> 'g graph"

type_synonym ('a, 'r, 'g) hookfn =
  "('g graph \<Rightarrow> 'r option \<times> 'g graph) \<Rightarrow> 'a list \<Rightarrow> 'g graph \<Rightarrow> 'r option \<times> 'g graph"

text \<open>\<open>hookName || methodName\<close>: null, undefined and the empty string are falsy.\<close>

definition hookTarget :: "string option \<Rightarrow> string \<Rightarrow> string" where
  "hookTarget hookName methodName =
     (case hookName of None \<Rightarrow> methodName | Some n \<Rightarrow> if n = [] then methodName else n)"

definition hook ::
  "string option \<Rightarrow> bool \<Rightarrow> string \<Rightarrow> ('a, 'r, 'g) graphMethod \<Rightarrow>
   (string \<Rightarrow> ('a, 'r, 'g) hookfn option) \<Rightarrow> ('a, 'r, 'g) graphMethod" where
  "hook hookName ignoreNullResult methodName raw options args this =
     (case options (hookTarget hookName methodName) of
        None \<Rightarrow> raw args this
      | Some h \<Rightarrow>
          (case h (raw args) args (this\<lparr>nativeValue := True\<rparr>) of
             (ret, this1) \<Rightarrow>
               (let this2 = this1\<lparr>nativeValue := False\<rparr>
                in if ret \<noteq> None \<or> ignoreNullResult then (ret, this2)
                   else raw args this2)))"

section \<open>EdgeHandlerMarker.getCell\<close>





section \<open>The edge handler\<close>

text \<open>
  A connection constraint carries an optional fixed point; \<open>new Constraint()\<close> has none.
\<close>

record constraint =
  cpoint :: "point option"

text \<open>
  The fields of an \<open>EdgeHandler\<close> that the modelled methods read or write. \<open>stateCell\<close>
  and \<open>stateAbsolutePoints\<close> are \<open>this.state.cell\<close> and \<open>this.state.absolutePoints\<close>;
  \<open>handles\<close> holds the bounds of each handle shape (a null handle is \<open>None\<close>);
  \<open>hpoints\<close> and \<open>habsolutePoints\<close> are \<open>this.points\<close> and \<open>this.absolutePoints\<close>;
  \<open>currentConstraint\<close>, \<open>currentStateCell\<close> and \<open>constraintPoint\<close> are the constraint
  handler's \<open>currentConstraint\<close>, \<open>currentState.cell\<close> and \<open>currentPoint\<close>;
  \<open>validState\<close> and \<open>markedState\<close> are the marker's (as cells), \<open>highlightStroke\<close> is
  \<open>marker.highlight.shape.stroke\<close>, \<open>None\<close> when there is no highlight shape;
  \<open>labelHandleBounds\<close> and \<open>labelHandleVisible\<close> are the bounds and the visibility of the
  label handle shape (\<open>None\<close> when there is none), \<open>stateAbsoluteOffset\<close> is
  \<open>this.state.absoluteOffset\<close>. \<open>hasVirtualHandles\<close> says that \<open>virtualHandles\<close> is not null:
  it is then what \<open>createVirtualHandles\<close> returned, which is \<open>true\<close> and not an array.
  A handler that is not active holds in \<open>absolutePoints\<close> the state's own points (the
  constructor and \<open>refresh\<close> take the state's array, \<open>redraw\<close> a shallow copy of it); an
  active one holds the points of the preview, which \<open>mouseMove\<close> assigns together with
  \<open>active\<close>.
\<close>

record handler =
  stateCell :: cell
  stateAbsolutePoints :: "point list"
  handles :: "rectangle option list option"
  hasVirtualHandles :: bool
  hasCustomHandles :: bool
  hasMarker :: bool
  error :: "string option"
  index :: "int option"
  startX :: real
  startY :: real
  isLabelHandle :: bool
  isSourceHandle :: bool
  isTargetHandle :: bool
  active :: bool
  cloneable :: bool
  straightRemoveEnabled :: bool
  outlineConnect :: bool
  labelPos :: "point option"
  hpoints :: "point jsarray option"
  habsolutePoints :: "point list"
  snapPoint :: "point option"
  currentConstraint :: "constraint option"
  currentStateCell :: "cell option"
  constraintPoint :: "point option"
  validState :: "cell option"
  markedState :: "cell option"
  highlightStroke :: "string option option"
  labelHandleBounds :: "rectangle option"
  labelHandleVisible :: bool
  manageLabelHandle :: bool
  stateAbsoluteOffset :: point

text \<open>
  A visible terminal state as the straighten check reads it: whether the edge's
  constraint at it resolves to a fixed connection point, and its routing centre.
\<close>

record terminalView =
  fixedPoint :: bool
  routingCenter :: point

text \<open>
  The graph and its view as the handler reads them. The view's scale and translate, the
  origin of the state of the edge's parent (null when the parent has no state), the
  graph's pan offset \<open>tx\<close>, \<open>ty\<close>, its tolerance and flags. Functions that are not among
  the sources are parameters: \<open>graph.snap\<close>, the handle codes of \<open>DomEvent\<close>,
  \<open>Rectangle.containsPoint\<close>, \<open>util.ptSegmentDist\<close>, the visible terminal states of the
  edge, and the operations of the graph and the model that change cells; for the handles,
  the bounds of the shape \<open>createEdgeHandle\<close> makes for an index, whether inner handles
  are visible (the edge function is not \<open>entityRelation\<close>), \<open>graph.isCellBendable\<close>,
  \<open>getLabelHandleOffset\<close>, whether the label is valid and movable, and
  \<open>Rectangle.isIntersectWith\<close>.
\<close>

record graphEnv =
  scale :: real
  translate :: point
  parentOrigin :: "point option"
  tx :: real
  ty :: real
  tolerance :: real
  resetEdgesOnConnect :: bool
  allowDanglingEdges :: bool
  cellsCloneable :: bool
  snap :: "real \<Rightarrow> real"
  isVisualHandle :: "int \<Rightarrow> bool"
  getVisualHandle :: "int \<Rightarrow> int"
  isCustomHandle :: "int \<Rightarrow> bool"
  getCustomHandle :: "int \<Rightarrow> int"
  containsPoint :: "rectangle \<Rightarrow> point \<Rightarrow> bool"
  ptSegmentDist :: "real \<Rightarrow> real \<Rightarrow> real \<Rightarrow> real \<Rightarrow> real \<Rightarrow> real \<Rightarrow> real"
  sourceTerminal :: "terminalView option"
  targetTerminal :: "terminalView option"
  modelParent :: "model \<Rightarrow> cell \<Rightarrow> cell option"
  getChildCount :: "model \<Rightarrow> cell option \<Rightarrow> nat"
  cloneCell :: "cell \<Rightarrow> model \<Rightarrow> cell \<times> model"
  addCell :: "cell option \<Rightarrow> cell \<Rightarrow> nat \<Rightarrow> model \<Rightarrow> model"
  connectCell :: "cell \<Rightarrow> cell option \<Rightarrow> bool \<Rightarrow> constraint option \<Rightarrow> model \<Rightarrow> model"
  executeCustomHandle :: "int \<Rightarrow> model \<Rightarrow> model"
  getRelativePoint :: "cell \<Rightarrow> real \<Rightarrow> real \<Rightarrow> point"
  getPointOnEdge :: "cell \<Rightarrow> geometry \<Rightarrow> point"
  createHandleBounds :: "int \<Rightarrow> rectangle"
  innerHandleVisible :: bool
  cellBendable :: bool
  labelHandleOffset :: point
  labelShown :: bool
  isIntersectWith :: "rectangle \<Rightarrow> rectangle \<Rightarrow> bool"

text \<open>
  A mouse event: the client and graph coordinates, what the graph says of it
  (\<open>isConnectionIgnored\<close>, \<open>isCloneEvent\<close>), the alt key, whether its source is the
  marker's highlight shape, and the cell of the state under it.
\<close>

record event =
  clientX :: real
  clientY :: real
  graphX :: real
  graphY :: real
  connectionIgnored :: bool
  cloneEvent :: bool
  altDown :: bool
  onHighlight :: bool
  eventState :: "cell option"

text \<open>\<open>array[i] = v\<close>: a negative index is no element of the array; an index at or past
  the length extends the array, leaving holes.\<close>

definition js_set :: "'a jsarray \<Rightarrow> int \<Rightarrow> 'a \<Rightarrow> 'a jsarray" where
  "js_set xs i v =
     (if i < 0 then xs
      else if nat i < length xs then xs[nat i := Some v]
      else xs @ replicate (nat i - length xs) None @ [Some v])"

definition js_get :: "'a jsarray \<Rightarrow> int \<Rightarrow> 'a option" where
  "js_get xs i = (if 0 \<le> i \<and> nat i < length xs then xs ! nat i else None)"

subsection \<open>EdgeHandler.convertPoint\<close>

definition convertPoint :: "graphEnv \<Rightarrow> point \<Rightarrow> bool \<Rightarrow> point" where
  "convertPoint g pt gridEnabled =
     (let s = scale g;
          t = translate g;
          x0 = (if gridEnabled then snap g (px pt) else px pt);
          y0 = (if gridEnabled then snap g (py pt) else py pt);
          x1 = math_round (x0 / s - px t);
          y1 = math_round (y0 / s - py t)
      in case parentOrigin g of
           None \<Rightarrow> \<lparr>px = x1, py = y1\<rparr>
         | Some origin \<Rightarrow> \<lparr>px = x1 - px origin, py = y1 - py origin\<rparr>)"

subsection \<open>EdgeHandler.getPreviewPoints\<close>

text \<open>
  The loop over the handles: every handle other than the dragged one whose bounds contain
  the drag point removes one waypoint and marks the result as set.
\<close>

fun mergeDropped ::
  "graphEnv \<Rightarrow> int \<Rightarrow> point \<Rightarrow> nat \<Rightarrow> rectangle option list \<Rightarrow>
   point jsarray \<times> bool \<Rightarrow> point jsarray \<times> bool" where
  "mergeDropped g idx p i [] acc = acc"
| "mergeDropped g idx p i (handle # rest) (pts, res) =
     mergeDropped g idx p (Suc i) rest
       (if int i \<noteq> idx \<and> (case handle of None \<Rightarrow> False | Some b \<Rightarrow> containsPoint g b p)
        then (js_splice (if isVisualHandle g idx then getVisualHandle g idx else idx - 1)
                1 [] pts, True)
        else (pts, res))"

text \<open>
  The points the straighten check measures against: the state's absolute points with the
  drag point at the index, and the routing centre of a terminal in place of an end whose
  connection point is not fixed.
\<close>

definition straightenAbs :: "graphEnv \<Rightarrow> handler \<Rightarrow> int \<Rightarrow> point \<Rightarrow> point jsarray" where
  "straightenAbs g h idx p =
     (let abs0 = js_set (map Some (stateAbsolutePoints h)) idx p;
          abs1 = (case sourceTerminal g of
                    None \<Rightarrow> abs0
                  | Some src \<Rightarrow>
                      if \<not> fixedPoint src then js_set abs0 0 (routingCenter src) else abs0)
      in case targetTerminal g of
           None \<Rightarrow> abs1
         | Some trg \<Rightarrow>
             if \<not> fixedPoint trg
             then js_set abs1 (int (length abs1) - 1) (routingCenter trg) else abs1)"

text \<open>\<open>checkRemove(index, p)\<close>: whether the waypoint is to be removed.\<close>

definition checkRemove :: "graphEnv \<Rightarrow> handler \<Rightarrow> int \<Rightarrow> point \<Rightarrow> jserror + bool" where
  "checkRemove g h idx p =
     (let ab = straightenAbs g h idx p;
          tol = tolerance g * tolerance g
      in if idx > 0 \<and> idx < int (length ab) - 1 then
           (case (js_get ab (idx - 1), js_get ab (idx + 1)) of
              (Some a, Some b) \<Rightarrow>
                Inr (ptSegmentDist g (px a) (py a) (px b) (py b) (px p) (py p) < tol)
            | _ \<Rightarrow> Inl TypeError)
         else Inr False)"

definition mergePhase ::
  "graphEnv \<Rightarrow> handler \<Rightarrow> int \<Rightarrow> point \<Rightarrow> point jsarray \<Rightarrow> point jsarray \<times> bool" where
  "mergePhase g h idx p pts =
     (case handles h of
        None \<Rightarrow> (pts, False)
      | Some hs \<Rightarrow> mergeDropped g idx p 0 hs (pts, False))"

text \<open>
  The straighten removal runs when no handle removed a point, the option is enabled and
  the alt key is up.
\<close>

definition straightenPhase ::
  "graphEnv \<Rightarrow> handler \<Rightarrow> int \<Rightarrow> point \<Rightarrow> event \<Rightarrow> point jsarray \<times> bool \<Rightarrow>
   jserror + point jsarray \<times> bool" where
  "straightenPhase g h idx p e merged =
     (if \<not> snd merged \<and> straightRemoveEnabled h \<and> \<not> altDown e then
        (case checkRemove g h idx p of
           Inl err \<Rightarrow> Inl err
         | Inr True \<Rightarrow> Inr (js_splice (idx - 1) 1 [] (fst merged), True)
         | Inr False \<Rightarrow> Inr merged)
      else Inr merged)"

definition getPreviewPoints ::
  "graphEnv \<Rightarrow> model \<Rightarrow> handler \<Rightarrow> int \<Rightarrow> point \<Rightarrow> event \<Rightarrow>
   jserror + point jsarray option" where
  "getPreviewPoints g m h idx p e =
     (case geometryOf m (stateCell h) of
        None \<Rightarrow> Inl TypeError
      | Some geo \<Rightarrow>
          if \<not> isSourceHandle h \<and> \<not> isTargetHandle h then
            (let pnt = convertPoint g p False
             in case points geo of
                  None \<Rightarrow> Inr (Some [Some pnt])
                | Some pts0 \<Rightarrow>
                    (let pts1 = (if isVisualHandle g idx
                                 then js_splice (getVisualHandle g idx) 0 [Some pnt] pts0
                                 else pts0)
                     in case straightenPhase g h idx p e (mergePhase g h idx p pts1) of
                          Inl err \<Rightarrow> Inl err
                        | Inr (pts3, res) \<Rightarrow>
                            Inr (Some (if \<not> res \<and> \<not> isVisualHandle g idx
                                       then js_set pts3 (idx - 1) pnt else pts3))))
          else if resetEdgesOnConnect g then Inr None
          else Inr (points geo))"

subsection \<open>EdgeHandler.mouseUp and the changes it commits\<close>








text \<open>
  \<open>array[i] = v\<close> where the value may be \<open>undefined\<close>.
\<close>

definition js_put :: "'a jsarray \<Rightarrow> int \<Rightarrow> 'a option \<Rightarrow> 'a jsarray" where
  "js_put xs i v =
     (if i < 0 then xs
      else if nat i < length xs then xs[nat i := v]
      else xs @ replicate (nat i - length xs) None @ [v])"

text \<open>
  \<open>createHandles\<close>: a handle for the first and the last absolute point, and for each
  inner one when inner handles are visible and the cell is bendable; each inner handle
  pushes a point (0, 0) onto \<open>this.points\<close>. The result is the bounds of the new handle
  shapes and the number of points pushed.
\<close>

definition createdHandle :: "graphEnv \<Rightarrow> nat \<Rightarrow> nat \<Rightarrow> bool" where
  "createdHandle g len i =
     (i = 0 \<or> Suc i = len \<or> (innerHandleVisible g \<and> cellBendable g))"

definition createHandles :: "graphEnv \<Rightarrow> handler \<Rightarrow> rectangle option list \<times> nat" where
  "createHandles g h =
     (let len = length (habsolutePoints h);
          made = filter (createdHandle g len) [0..<len]
      in (map (\<lambda>i. Some (createHandleBounds g (int i))) made,
          length (filter (\<lambda>i. i \<noteq> 0 \<and> Suc i \<noteq> len) made)))"

text \<open>
  \<open>refresh\<close> takes the absolute points of the state again, empties \<open>this.points\<close>, and makes
  the handles anew when there are handles. When \<open>virtualHandles\<close> is not null it is handed
  to \<open>destroyHandles\<close>, which calls \<open>forEach\<close> on it: on the value \<open>true\<close> that throws.
  Custom handles are replaced by what \<open>createCustomHandles\<close> returns, which is null.
\<close>

definition refresh :: "graphEnv \<Rightarrow> handler \<Rightarrow> jserror + handler" where
  "refresh g h =
     (let h1 = h\<lparr>habsolutePoints := stateAbsolutePoints h, hpoints := Some []\<rparr>;
          h2 = (case handles h1 of
                  None \<Rightarrow> h1
                | Some old \<Rightarrow>
                    h1\<lparr>handles := Some (fst (createHandles g h1)),
                       hpoints := Some (replicate (snd (createHandles g h1))
                                          (Some \<lparr>px = 0, py = 0\<rparr>))\<rparr>)
      in if hasVirtualHandles h2 then Inl TypeError
         else Inr (if hasCustomHandles h2 then h2\<lparr>hasCustomHandles := False\<rparr> else h2))"

text \<open>
  The bounds of a handle moved to a point: the first and the last handle are placed with
  \<open>Math.floor\<close>, the inner ones with \<open>Math.round\<close>.
\<close>

definition recenterFloor :: "point \<Rightarrow> rectangle \<Rightarrow> rectangle" where
  "recenterFloor p b =
     \<lparr>rx = of_int \<lfloor>px p - width b / 2\<rfloor>, ry = of_int \<lfloor>py p - height b / 2\<rfloor>,
      width = width b, height = height b\<rparr>"

definition recenterRound :: "point \<Rightarrow> real \<Rightarrow> real \<Rightarrow> rectangle" where
  "recenterRound p w h =
     \<lparr>rx = math_round (px p - w / 2), ry = math_round (py p - h / 2),
      width = w, height = h\<rparr>"

text \<open>
  \<open>checkLabelHandle(b)\<close> moves the label handle above or below the bounds it intersects.
\<close>

definition checkLabelHandle ::
  "graphEnv \<Rightarrow> rectangle \<Rightarrow> rectangle option \<Rightarrow> rectangle option" where
  "checkLabelHandle g b lb =
     (case lb of
        None \<Rightarrow> None
      | Some b2 \<Rightarrow>
          if isIntersectWith g b b2 then
            (if ry b + height b / 2 < ry b2 + height b2 / 2
             then Some (b2\<lparr>ry := ry b + height b\<rparr>)
             else Some (b2\<lparr>ry := ry b - height b2\<rparr>))
          else Some b2)"

text \<open>
  \<open>redrawInnerHandles\<close>, over the indices 1 to \<open>handles.length - 2\<close>: the handles and the
  bounds of the label handle are carried along. A handle with no absolute point at its
  index is disposed of and becomes null.
\<close>

fun redrawInnerHandles ::
  "graphEnv \<Rightarrow> bool \<Rightarrow> bool \<Rightarrow> point list \<Rightarrow> nat list \<Rightarrow>
   rectangle option list \<times> rectangle option \<Rightarrow> rectangle option list \<times> rectangle option" where
  "redrawInnerHandles g manage visible ab [] acc = acc"
| "redrawInnerHandles g manage visible ab (i # rest) (hs, lb) =
     redrawInnerHandles g manage visible ab rest
       (case hs ! i of
          None \<Rightarrow> (hs, lb)
        | Some b \<Rightarrow>
            if i < length ab then
              (let nb = recenterRound (ab ! i) (width b) (height b)
               in if manage then (hs[i := Some nb], checkLabelHandle g nb lb)
                  else if (case lb of None \<Rightarrow> False
                           | Some l \<Rightarrow> visible \<and> isIntersectWith g nb l)
                  then (hs[i := Some (recenterRound (ab ! i) (width b + 3) (height b + 3))], lb)
                  else (hs[i := Some nb], lb))
            else (hs[i := None], lb))"

text \<open>
  The first or the last handle, at index \<open>i\<close>, moved to its absolute point; reading the
  coordinates of a point that is not there throws.
\<close>

definition redrawEndHandle ::
  "graphEnv \<Rightarrow> bool \<Rightarrow> point option \<Rightarrow> nat \<Rightarrow>
   rectangle option list \<times> rectangle option \<Rightarrow>
   jserror + rectangle option list \<times> rectangle option" where
  "redrawEndHandle g manage p i acc =
     (case fst acc ! i of
        None \<Rightarrow> Inr acc
      | Some b \<Rightarrow>
          (case p of
             None \<Rightarrow> Inl TypeError
           | Some pt \<Rightarrow>
               Inr ((fst acc)[i := Some (recenterFloor pt b)],
                    if manage then checkLabelHandle g (recenterFloor pt b) (snd acc)
                    else snd acc)))"

text \<open>
  \<open>redrawHandles\<close>: the label handle takes the state's absolute offset as label position,
  then the first, the last and the inner handles are moved to the absolute points.
  (The loop over the virtual handles runs to \<open>virtualHandles.length\<close>, which the value
  \<open>true\<close> does not have: it does not run.)
\<close>

definition redrawHandles :: "graphEnv \<Rightarrow> handler \<Rightarrow> jserror + handler" where
  "redrawHandles g h =
     (let h1 = (case labelHandleBounds h of
                  None \<Rightarrow> h
                | Some b \<Rightarrow>
                    h\<lparr>labelPos := Some (stateAbsoluteOffset h),
                      labelHandleBounds :=
                        Some \<lparr>rx = math_round (px (stateAbsoluteOffset h) - width b / 2
                                                + px (labelHandleOffset g)),
                              ry = math_round (py (stateAbsoluteOffset h) - height b / 2
                                                + py (labelHandleOffset g)),
                              width = width b, height = height b\<rparr>,
                      labelHandleVisible := labelShown g\<rparr>);
          ab = habsolutePoints h1
      in case handles h1 of
           None \<Rightarrow> Inr h1
         | Some hs \<Rightarrow>
             if hs = [] then Inr h1
             else
               (case redrawEndHandle g (manageLabelHandle h1)
                       (if ab = [] then None else Some (hd ab)) 0
                       (hs, labelHandleBounds h1) of
                  Inl err \<Rightarrow> Inl err
                | Inr acc1 \<Rightarrow>
                    (case redrawEndHandle g (manageLabelHandle h1)
                            (if ab = [] then None else Some (last ab)) (length hs - 1) acc1 of
                       Inl err \<Rightarrow> Inl err
                     | Inr acc2 \<Rightarrow>
                         (let acc3 = redrawInnerHandles g (manageLabelHandle h1)
                                       (labelHandleVisible h1) ab [1..<length hs - 1] acc2
                          in Inr (h1\<lparr>handles := Some (fst acc3),
                                     labelHandleBounds := snd acc3\<rparr>)))))"

text \<open>
  \<open>drawPreview\<close>: while the label handle is dragged, the label handle is centred on the
  label position; otherwise the preview shape is painted.
\<close>

definition drawPreview :: "handler \<Rightarrow> jserror + handler" where
  "drawPreview h =
     (if isLabelHandle h then
        (case labelHandleBounds h of
           None \<Rightarrow> Inr h
         | Some b \<Rightarrow>
             (case labelPos h of
                None \<Rightarrow> Inl TypeError
              | Some lp \<Rightarrow>
                  Inr (h\<lparr>labelHandleBounds :=
                           Some \<lparr>rx = math_round (px lp - width b / 2),
                                 ry = math_round (py lp - height b / 2),
                                 width = width b, height = height b\<rparr>\<rparr>)))
      else Inr h)"

text \<open>
  \<open>redraw\<close>: the absolute points are a copy of the state's, the handles are redrawn, and
  with a waypoint list in the geometry and at least one handle, \<open>this.points\<close> takes the
  waypoint at \<open>i - 1\<close> for every inner handle \<open>i\<close> that has an absolute point. The geometry
  of the edge is read without a check.
\<close>

definition redraw :: "graphEnv \<Rightarrow> model \<Rightarrow> handler \<Rightarrow> jserror + handler" where
  "redraw g m h =
     (case redrawHandles g (h\<lparr>habsolutePoints := stateAbsolutePoints h\<rparr>) of
        Inl err \<Rightarrow> Inl err
      | Inr h1 \<Rightarrow>
          (case geometryOf m (stateCell h1) of
             None \<Rightarrow> Inl TypeError
           | Some geo \<Rightarrow>
               drawPreview
                 (case points geo of
                    None \<Rightarrow> h1
                  | Some pts \<Rightarrow>
                      (case handles h1 of
                         None \<Rightarrow> h1
                       | Some hs \<Rightarrow>
                           if hs = [] then h1
                           else
                             h1\<lparr>hpoints :=
                                  Some (foldl
                                    (\<lambda>ps i. if hs ! i \<noteq> None \<and> i < length (habsolutePoints h1)
                                             then js_put ps (int i - 1) (js_get pts (int i - 1))
                                             else ps)
                                    (case hpoints h1 of None \<Rightarrow> [] | Some ps \<Rightarrow> ps)
                                    [1..<length hs - 1])\<rparr>))))"

text \<open>
  \<open>reset\<close> refreshes an active handler, clears the drag, the marker and the constraint
  handler, and redraws.
\<close>

definition reset :: "graphEnv \<Rightarrow> model \<Rightarrow> handler \<Rightarrow> jserror + handler" where
  "reset g m h =
     (case (if active h then refresh g h else Inr h) of
        Inl err \<Rightarrow> Inl err
      | Inr h1 \<Rightarrow>
          (let h2 = h1\<lparr>error := None, index := None, labelPos := None, hpoints := None,
                       snapPoint := None, isLabelHandle := False, isSourceHandle := False,
                       isTargetHandle := False, active := False\<rparr>;
               h3 = (if hasMarker h2 then h2\<lparr>validState := None, markedState := None\<rparr>
                     else h2)
           in redraw g m
                (h3\<lparr>currentConstraint := None, currentStateCell := None,
                    constraintPoint := None\<rparr>)))"


text \<open>
  The terminal a completed drag of the source or target handle connects to: the cell of
  the constraint handler's state when it has a constraint, else the marker's valid state
  when its highlight shape is neither transparent nor white.
\<close>

definition dropTerminal :: "handler \<Rightarrow> cell option" where
  "dropTerminal h =
     (let terminal = (if currentConstraint h \<noteq> None \<and> currentStateCell h \<noteq> None
                      then currentStateCell h else None)
      in if terminal = None \<and> validState h \<noteq> None \<and>
            (case highlightStroke h of
               None \<Rightarrow> False
             | Some stroke \<Rightarrow> stroke \<noteq> Some ''transparent'' \<and> stroke \<noteq> Some ''white'')
         then validState h else terminal)"




subsection \<open>EdgeHandler.updatePreviewState\<close>

text \<open>
  The preview is a clone of the edge's state: its style, its visible terminal states (as
  cells) and its absolute points (an end not yet resolved is null). The view's and the
  graph's operations on it are not among the sources and are parameters, with the
  visible terminal states of the edited edge's own state, and the two highlight colours.
\<close>

record previewEdge =
  pstyle :: style
  visibleSource :: "cell option"
  visibleTarget :: "cell option"
  pabsolutePoints :: "point jsarray"

record viewEnv =
  stateSource :: "cell option"
  stateTarget :: "cell option"
  getConnectionConstraint :: "previewEdge \<Rightarrow> cell option \<Rightarrow> bool \<Rightarrow> constraint option"
  getOutlineConstraint :: "point \<Rightarrow> cell \<Rightarrow> constraint option"
  updateFixedTerminalPoint ::
    "previewEdge \<Rightarrow> cell option \<Rightarrow> bool \<Rightarrow> constraint option \<Rightarrow> previewEdge"
  setAbsoluteTerminalPoint :: "point \<Rightarrow> bool \<Rightarrow> previewEdge \<Rightarrow> previewEdge"
  updateRouterPoints ::
    "previewEdge \<Rightarrow> point jsarray \<Rightarrow> cell option \<Rightarrow> cell option \<Rightarrow> previewEdge"
  updateFloatingTerminalPoints ::
    "previewEdge \<Rightarrow> cell option \<Rightarrow> cell option \<Rightarrow> previewEdge"
  outlineHighlightColor :: string
  defaultValidColor :: string

text \<open>
  The constraint of the dragged end: the constraint handler's current one; with none and
  an outline connect, the outline constraint of the terminal state (which the constraint
  handler then holds, with the point used), or an empty \<open>new Constraint()\<close> when there is
  no terminal state. (\<open>constraintHandler.focus\<close> changes none of the fields kept here.)
\<close>

definition previewConstraint ::
  "viewEnv \<Rightarrow> handler \<Rightarrow> point \<Rightarrow> cell option \<Rightarrow> event \<Rightarrow> bool \<Rightarrow>
   constraint option \<times> handler" where
  "previewConstraint v h pnt terminalState e outline =
     (if currentConstraint h = None \<and> outline then
        (case terminalState of
           Some ts \<Rightarrow>
             (let p2 = (if onHighlight e then \<lparr>px = graphX e, py = graphY e\<rparr> else pnt);
                  c = getOutlineConstraint v p2 ts
              in (c, h\<lparr>currentConstraint := c, constraintPoint := Some p2\<rparr>))
         | None \<Rightarrow> (Some \<lparr>cpoint = None\<rparr>, h))
      else (currentConstraint h, h))"

text \<open>The stroke of the marker's highlight shape, repainted when outline connect is on.\<close>

definition previewHighlight :: "viewEnv \<Rightarrow> handler \<Rightarrow> event \<Rightarrow> bool \<Rightarrow> handler" where
  "previewHighlight v h e outline =
     (if outlineConnect h \<and> highlightStroke h \<noteq> None then
        (if currentConstraint h \<noteq> None \<and> currentStateCell h \<noteq> None then
           h\<lparr>highlightStroke :=
               Some (Some (if outline then outlineHighlightColor v else ''transparent''))\<rparr>
         else if validState h \<noteq> None then
           h\<lparr>highlightStroke :=
               Some (Some (if validState h = eventState e then defaultValidColor v
                           else ''transparent''))\<rparr>
         else h)
      else h)"

text \<open>
  The exit or entry keys of the preview's style: set from the constraint's point, deleted
  when there is no constraint or it has no point. The source handle goes first.
\<close>

definition previewStyle :: "handler \<Rightarrow> constraint option \<Rightarrow> style \<Rightarrow> style" where
  "previewStyle h c sty =
     (if isSourceHandle h \<or> isTargetHandle h then
        (case (case c of None \<Rightarrow> None | Some c' \<Rightarrow> cpoint c') of
           Some pt \<Rightarrow>
             (if isSourceHandle h then sty\<lparr>exitX := Some (px pt), exitY := Some (py pt)\<rparr>
              else sty\<lparr>entryX := Some (px pt), entryY := Some (py pt)\<rparr>)
         | None \<Rightarrow>
             (if isSourceHandle h then sty\<lparr>exitX := None, exitY := None\<rparr>
              else sty\<lparr>entryX := None, entryY := None\<rparr>))
      else sty)"

text \<open>
  \<open>updatePreviewState\<close> returns the preview, the handler, and the constraints it handed
  to the view for the source and the target end.
\<close>

definition updatePreviewState ::
  "graphEnv \<Rightarrow> viewEnv \<Rightarrow> handler \<Rightarrow> previewEdge \<Rightarrow> point \<Rightarrow> cell option \<Rightarrow> event \<Rightarrow>
   bool \<Rightarrow> previewEdge \<times> handler \<times> constraint option \<times> constraint option" where
  "updatePreviewState g v h edge pnt terminalState e outline =
     (let sourceState = (if isSourceHandle h then terminalState else stateSource v);
          targetState = (if isTargetHandle h then terminalState else stateTarget v);
          sourceC0 = getConnectionConstraint v edge sourceState True;
          targetC0 = getConnectionConstraint v edge targetState False;
          ch = previewConstraint v h pnt terminalState e outline;
          c = fst ch;
          h1 = previewHighlight v (snd ch) e outline;
          sourceC = (if isSourceHandle h then c else sourceC0);
          targetC = (if \<not> isSourceHandle h \<and> isTargetHandle h then c else targetC0);
          edge1 = edge\<lparr>pstyle := previewStyle h c (pstyle edge),
                       visibleSource := sourceState, visibleTarget := targetState\<rparr>;
          edge2 = (if \<not> isSourceHandle h \<or> sourceState \<noteq> None
                   then updateFixedTerminalPoint v edge1 sourceState True sourceC else edge1);
          edge3 = (if \<not> isTargetHandle h \<or> targetState \<noteq> None
                   then updateFixedTerminalPoint v edge2 targetState False targetC else edge2);
          dangling = ((isSourceHandle h \<or> isTargetHandle h) \<and> terminalState = None);
          edge4 = (if dangling then setAbsoluteTerminalPoint v pnt (isSourceHandle h) edge3
                   else edge3);
          h2 = (if dangling \<and> markedState h1 = None
                then h1\<lparr>error := (if allowDanglingEdges g then None else Some [])\<rparr>
                else h1);
          edge5 = updateRouterPoints v edge4
                    (case hpoints h of None \<Rightarrow> [] | Some ps \<Rightarrow> ps) sourceState targetState;
          edge6 = updateFloatingTerminalPoints v edge5 sourceState targetState
      in (edge6, h2, sourceC, targetC))"

text \<open>
  Modelled from the spec: \<open>view.updateFixedTerminalPoint\<close> and the connection point it
  computes are not among the sources. A constraint is resolved against the bounds of the
  terminal: a fixed one maps its fractional point onto the bounds directly, with no call
  of the perimeter function; a free one is the perimeter function's point for the other
  terminal's point.
\<close>

definition resolveConstraint ::
  "(rectangle \<Rightarrow> point \<Rightarrow> point) \<Rightarrow> constraint option \<Rightarrow> rectangle \<Rightarrow> point \<Rightarrow> point" where
  "resolveConstraint perimeter c b nearPoint =
     (case (case c of None \<Rightarrow> None | Some c' \<Rightarrow> cpoint c') of
        Some pt \<Rightarrow> \<lparr>px = rx b + px pt * width b, py = ry b + py pt * height b\<rparr>
      | None \<Rightarrow> perimeter b nearPoint)"




section \<open>Concrete inputs\<close>

text \<open>
  The edge 7 from node 1 to node 2 with two waypoints, and the four absolute points of
  its state.
\<close>

definition geo0 :: geometry where
  "geo0 = \<lparr>points = Some [Some \<lparr>px = 5, py = 5\<rparr>, Some \<lparr>px = 9, py = 5\<rparr>],
            sourcePoint = None, targetPoint = None,
            gbounds = \<lparr>rx = 0, ry = 0, width = 0, height = 0\<rparr>, goffset = None,
            relative = True\<rparr>"

definition model0 :: model where
  "model0 = \<lparr>geometryOf = (\<lambda>c. if c = 7 then Some geo0 else None),
              terminalOf = (\<lambda>c s. if c = 7 then (if s then Some 1 else Some 2) else None)\<rparr>"

definition habs0 :: "point list" where
  "habs0 = [\<lparr>px = 0, py = 0\<rparr>, \<lparr>px = 5, py = 5\<rparr>, \<lparr>px = 9, py = 5\<rparr>, \<lparr>px = 9, py = 0\<rparr>]"

definition ov0 :: overlay where
  "ov0 = \<lparr>img = \<lparr>imgWidth = 16, imgHeight = 10\<rparr>, align = Some ''center'',
           verticalAlign = Some ''bottom'', offset = \<lparr>px = 1, py = 0\<rparr>,
           defaultOverlap = 1 / 2\<rparr>"

definition style0 :: style where
  "style0 = \<lparr>exitX = None, exitY = None, entryX = None, entryY = None, factor = None\<rparr>"

definition nodeState0 :: cstate where
  "nodeState0 = \<lparr>cellIsEdge = False, viewScale = 2,
                  bounds = \<lparr>rx = 0, ry = 0, width = 80, height = 30\<rparr>,
                  absolutePoints = [], style = style0\<rparr>"

definition edgeState3 :: cstate where
  "edgeState3 = \<lparr>cellIsEdge = True, viewScale = 1,
                  bounds = \<lparr>rx = 0, ry = 0, width = 10, height = 7\<rparr>,
                  absolutePoints =
                    [\<lparr>px = 0, py = 0\<rparr>, \<lparr>px = 10, py = 0\<rparr>, \<lparr>px = 10, py = 7\<rparr>],
                  style = style0\<rparr>"

definition edgeState2 :: cstate where
  "edgeState2 = \<lparr>cellIsEdge = True, viewScale = 1,
                  bounds = \<lparr>rx = 0, ry = 0, width = 10, height = 5\<rparr>,
                  absolutePoints = [\<lparr>px = 0, py = 0\<rparr>, \<lparr>px = 10, py = 5\<rparr>],
                  style = style0\<rparr>"

definition store0 :: store where
  "store0 = \<lparr>rects = (\<lambda>r. if r = 0 then \<lparr>rx = 0, ry = 0, width = 80, height = 30\<rparr>
                          else \<lparr>rx = 200, ry = 0, width = 80, height = 30\<rparr>),
              fresh = 2\<rparr>"

definition view0 :: edgeView where
  "view0 = \<lparr>sourceEndpoint = None, targetEndpoint = Some \<lparr>px = 200, py = 15\<rparr>,
             sourceBBox = 0, targetBBox = 1\<rparr>"

definition pad0 :: "sideOptions option" where
  "pad0 = Some (SideObject \<lparr>sVertical = None, sHorizontal = None, sTop = None,
                            sRight = Some 10, sBottom = None, sLeft = None\<rparr>)"

definition perimeterEnv0 :: perimeterEnv where
  "perimeterEnv0 =
     \<lparr>getFactor = (\<lambda>st d h. min h (orElse (factor st) (orElse d 30))),
      getDirectedBounds = (\<lambda>b r st.
         \<lparr>rx = rx b, ry = ry b, width = width b, height = height b - height r\<rparr>),
      rectanglePerimeter = (\<lambda>b st n orth.
         \<lparr>px = (if px n < rx b then rx b else rx b + width b), py = ry b + height b / 2\<rparr>),
      protoFactor = None\<rparr>"

text \<open>A method that returns the graph's counter, and a hook that counts and returns null.\<close>

definition rawCounter :: "(unit, int, int) graphMethod" where
  "rawCounter args g = (Some (content g), g)"

definition countingHook :: "(unit, int, int) hookfn" where
  "countingHook native args g = (None, g\<lparr>content := content g + 1\<rparr>)"

definition quietHook :: "(unit, int, int) hookfn" where
  "quietHook native args g = (None, g)"

definition answeringHook :: "(unit, int, int) hookfn" where
  "answeringHook native args g = (Some 42, g)"

definition optionsWith :: "(unit, int, int) hookfn \<Rightarrow> string \<Rightarrow> (unit, int, int) hookfn option" where
  "optionsWith h name = (if name = ''getCount'' then Some h else None)"



text \<open>
  A graph at scale 2 without grid; stand-ins for the functions that are parameters:
  containment in a rectangle with its border, the squared distance to a segment's middle
  for \<open>ptSegmentDist\<close>, the handle codes counted down from -100 and -100000, a clone
  with the identity of the cell plus 100, and a \<open>connectCell\<close> that sets the terminal.
\<close>

definition graphEnv0 :: graphEnv where
  "graphEnv0 =
     \<lparr>scale = 2, translate = \<lparr>px = 0, py = 0\<rparr>, parentOrigin = None, tx = 0, ty = 0,
      tolerance = 4, resetEdgesOnConnect = True, allowDanglingEdges = True,
      cellsCloneable = True,
      snap = (\<lambda>v. v),
      isVisualHandle = (\<lambda>i. i \<le> - 100000),
      getVisualHandle = (\<lambda>i. - 100000 - i),
      isCustomHandle = (\<lambda>i. i \<le> - 100 \<and> - 100000 < i),
      getCustomHandle = (\<lambda>i. - 100 - i),
      containsPoint = (\<lambda>b p. rx b \<le> px p \<and> px p \<le> rx b + width b \<and>
                              ry b \<le> py p \<and> py p \<le> ry b + height b),
      ptSegmentDist = (\<lambda>x1 y1 x2 y2 x y.
         ((x1 + x2) / 2 - x) * ((x1 + x2) / 2 - x) + ((y1 + y2) / 2 - y) * ((y1 + y2) / 2 - y)),
      sourceTerminal = Some \<lparr>fixedPoint = False, routingCenter = \<lparr>px = - 10, py = 0\<rparr>\<rparr>,
      targetTerminal = Some \<lparr>fixedPoint = True, routingCenter = \<lparr>px = 30, py = 0\<rparr>\<rparr>,
      modelParent = (\<lambda>m c. None),
      getChildCount = (\<lambda>m c. 0),
      cloneCell = (\<lambda>c m. (c + 100, m\<lparr>geometryOf := (geometryOf m)(c + 100 := geometryOf m c)\<rparr>)),
      addCell = (\<lambda>parent c i m. m),
      connectCell = (\<lambda>edge t isSource c m.
         m\<lparr>terminalOf := (terminalOf m)(edge := (terminalOf m edge)(isSource := t))\<rparr>),
      executeCustomHandle = (\<lambda>i m. m),
      getRelativePoint = (\<lambda>c x y. \<lparr>px = 0, py = 0\<rparr>),
      getPointOnEdge = (\<lambda>c geo. \<lparr>px = 9, py = 5\<rparr>),
      createHandleBounds = (\<lambda>i. \<lparr>rx = 0, ry = 0, width = 6, height = 6\<rparr>),
      innerHandleVisible = True, cellBendable = True,
      labelHandleOffset = \<lparr>px = 0, py = 0\<rparr>, labelShown = False,
      isIntersectWith = (\<lambda>a b. rx a \<le> rx b + width b \<and> rx b \<le> rx a + width a \<and>
                               ry a \<le> ry b + height b \<and> ry b \<le> ry a + height a)\<rparr>"

definition handler0 :: handler where
  "handler0 =
     \<lparr>stateCell = 7,
      stateAbsolutePoints =
        [\<lparr>px = 0, py = 0\<rparr>, \<lparr>px = 10, py = 10\<rparr>, \<lparr>px = 18, py = 10\<rparr>, \<lparr>px = 18, py = 0\<rparr>],
      handles = Some [Some \<lparr>rx = - 3, ry = - 3, width = 6, height = 6\<rparr>,
                      Some \<lparr>rx = 7, ry = 7, width = 6, height = 6\<rparr>,
                      Some \<lparr>rx = 15, ry = 7, width = 6, height = 6\<rparr>,
                      Some \<lparr>rx = 15, ry = - 3, width = 6, height = 6\<rparr>],
      hasVirtualHandles = False, hasCustomHandles = False, hasMarker = True,
      error = None, index = Some 1,
      startX = 10, startY = 10, isLabelHandle = False, isSourceHandle = False,
      isTargetHandle = False, active = False, cloneable = True,
      straightRemoveEnabled = True, outlineConnect = False, labelPos = None,
      hpoints = Some [],
      habsolutePoints =
        [\<lparr>px = 0, py = 0\<rparr>, \<lparr>px = 10, py = 10\<rparr>, \<lparr>px = 18, py = 10\<rparr>, \<lparr>px = 18, py = 0\<rparr>],
      snapPoint = None, currentConstraint = None, currentStateCell = None,
      constraintPoint = None, validState = None, markedState = None,
      highlightStroke = None,
      labelHandleBounds = Some \<lparr>rx = 6, ry = 7, width = 6, height = 6\<rparr>,
      labelHandleVisible = False, manageLabelHandle = False,
      stateAbsoluteOffset = \<lparr>px = 9, py = 10\<rparr>\<rparr>"

definition event0 :: event where
  "event0 = \<lparr>clientX = 12, clientY = 14, graphX = 12, graphY = 14,
              connectionIgnored = False, cloneEvent = False, altDown = False,
              onHighlight = False, eventState = None\<rparr>"


text \<open>
  The target handle of the edge dragged onto empty canvas, its end at the absolute point
  (19, 1).
\<close>

definition handlerD :: handler where
  "handlerD = handler0\<lparr>index := Some 3, isTargetHandle := True, active := True,
       habsolutePoints :=
         [\<lparr>px = 0, py = 0\<rparr>, \<lparr>px = 10, py = 10\<rparr>, \<lparr>px = 18, py = 10\<rparr>, \<lparr>px = 19, py = 1\<rparr>]\<rparr>"

definition viewEnv0 :: viewEnv where
  "viewEnv0 =
     \<lparr>stateSource = Some 1, stateTarget = Some 2,
      getConnectionConstraint = (\<lambda>edge t isSource. None),
      getOutlineConstraint = (\<lambda>p t. None),
      updateFixedTerminalPoint = (\<lambda>edge t isSource c. edge),
      setAbsoluteTerminalPoint = (\<lambda>p isSource edge.
         edge\<lparr>pabsolutePoints :=
           (if isSource then (pabsolutePoints edge)[0 := Some p]
            else (pabsolutePoints edge)[length (pabsolutePoints edge) - 1 := Some p])\<rparr>),
      updateRouterPoints = (\<lambda>edge pts s t. edge),
      updateFloatingTerminalPoints = (\<lambda>edge s t. edge),
      outlineHighlightColor = ''blue'', defaultValidColor = ''green''\<rparr>"

definition previewEdge0 :: previewEdge where
  "previewEdge0 =
     \<lparr>pstyle = style0\<lparr>exitX := Some 1, entryX := Some 0\<rparr>,
      visibleSource = Some 1, visibleTarget = Some 2,
      pabsolutePoints = [Some \<lparr>px = 0, py = 0\<rparr>, Some \<lparr>px = 18, py = 0\<rparr>]\<rparr>"

definition bottomCenter :: constraint where
  "bottomCenter = \<lparr>cpoint = Some \<lparr>px = 1 / 2, py = 1\<rparr>\<rparr>"

definition handlerS :: handler where
  "handlerS = handler0\<lparr>index := Some 0, isSourceHandle := True,
       currentConstraint := Some bottomCenter, currentStateCell := Some 1\<rparr>"

section \<open>Properties\<close>

lemma js_splice_remove_one:
  "0 \<le> i \<Longrightarrow> js_splice i 1 [] xs = take (nat i) xs @ drop (Suc (nat i)) xs"
proof (cases "i < int (length xs)")
  case True
  assume "0 \<le> i"
  with True have "nat (i + 1) = Suc (nat i)" by simp
  with True \<open>0 \<le> i\<close> show ?thesis
    by (simp add: js_splice_def Let_def min_def max_def)
next
  case False
  assume "0 \<le> i"
  with False show ?thesis
    by (simp add: js_splice_def Let_def min_def max_def)
qed

lemma removePoint_changes:
  assumes "fst (removePoint ab tc sc idx m) \<noteq> m"
  shows "0 < idx \<and> idx < int (length ab) - 1 \<and>
      (\<exists>g qs. geometryOf m tc = Some g \<and> points g = Some qs)"
  using assms by (auto simp: removePoint_def split: if_splits option.splits)

lemma removePoint_inner:
  assumes "0 < idx" and "idx < int (length ab) - 1"
    and "geometryOf m tc = Some geo" and "points geo = Some ps"
  shows "removePoint ab tc sc idx m =
        (setGeometry sc
           (geo\<lparr>points := Some (take (nat (idx - 1)) ps @ drop (nat idx) ps)\<rparr>) m,
         True)"
proof -
  from assms(1) have "0 \<le> idx - 1" by simp
  then have "js_splice (idx - 1) 1 [] ps
      = take (nat (idx - 1)) ps @ drop (Suc (nat (idx - 1))) ps"
    by (rule js_splice_remove_one)
  moreover from assms(1) have "Suc (nat (idx - 1)) = nat idx" by simp
  ultimately show ?thesis
    using assms by (simp add: removePoint_def)
qed

lemma removePoint_terminal:
  assumes "idx = 0 \<or> idx = int (length ab) - 1"
  shows "removePoint ab tc sc idx m = (m, False)"
  using assms by (auto simp: removePoint_def)

text \<open>
  C8. \<open>removePoint\<close> changes the model only for an inner index
  (\<open>0 < index < absolutePoints.length - 1\<close>) of an edge whose geometry has a waypoint list;
  it then stores the geometry whose waypoint list lost the one entry at \<open>index - 1\<close>
  (nothing is lost when the list is shorter than that).
  For index 0 and for the last index, the two terminal points, the model is returned
  as it was.
\<close>

theorem removePoint_inner_only:
  "(fst (removePoint ab tc sc idx m) \<noteq> m \<longrightarrow>
      0 < idx \<and> idx < int (length ab) - 1 \<and>
      (\<exists>g qs. geometryOf m tc = Some g \<and> points g = Some qs)) \<and>
   (0 < idx \<and> idx < int (length ab) - 1 \<and>
      geometryOf m tc = Some geo \<and> points geo = Some ps \<longrightarrow>
      removePoint ab tc sc idx m =
        (setGeometry sc
           (geo\<lparr>points := Some (take (nat (idx - 1)) ps @ drop (nat idx) ps)\<rparr>) m,
         True)) \<and>
   (idx = 0 \<or> idx = int (length ab) - 1 \<longrightarrow> removePoint ab tc sc idx m = (m, False))"
  using removePoint_changes [of ab tc sc idx m]
    removePoint_inner [of idx ab m tc geo ps sc]
    removePoint_terminal [of idx ab tc sc m]
  by blast

theorem removePoint_inner_only_witness:
  "removePoint habs0 7 7 1 model0
     = (setGeometry 7 (geo0\<lparr>points := Some [Some \<lparr>px = 9, py = 5\<rparr>]\<rparr>) model0, True) \<and>
   removePoint habs0 7 7 0 model0 = (model0, False) \<and>
   removePoint habs0 7 7 3 model0 = (model0, False)"
proof -
  have g: "geometryOf model0 7 = Some geo0"
    and p: "points geo0 = Some [Some \<lparr>px = 5, py = 5\<rparr>, Some \<lparr>px = 9, py = 5\<rparr>]"
    and l: "int (length habs0) - 1 = 3"
    by (simp_all add: model0_def geo0_def habs0_def)
  have "removePoint habs0 7 7 1 model0
     = (setGeometry 7 (geo0\<lparr>points := Some [Some \<lparr>px = 9, py = 5\<rparr>]\<rparr>) model0, True)"
    using removePoint_inner_only [of habs0 7 7 1 model0 geo0
        "[Some \<lparr>px = 5, py = 5\<rparr>, Some \<lparr>px = 9, py = 5\<rparr>]"] g p l
    by simp
  moreover have "removePoint habs0 7 7 0 model0 = (model0, False)"
    using removePoint_inner_only [of habs0 7 7 0 model0] by simp
  moreover have "removePoint habs0 7 7 3 model0 = (model0, False)"
    using removePoint_inner_only [of habs0 7 7 3 model0] l by simp
  ultimately show ?thesis by blast
qed

subsection \<open>Overlay.getBounds\<close>

lemma getBounds_edge_odd:
  assumes "cellIsEdge st" and "odd (length (absolutePoints st))"
  shows "getBounds ov st =
    Inr (overlayAt ov (viewScale st)
      (absolutePoints st ! (length (absolutePoints st) div 2)))"
proof -
  from assms(2) have "length (absolutePoints st) mod 2 = 1"
    by (simp add: odd_iff_mod_2_eq_one)
  with assms(1) show ?thesis
    by (simp add: getBounds_def overlayAt_def Let_def)
qed

lemma getBounds_edge_even:
  assumes "cellIsEdge st" and "even (length (absolutePoints st))"
    and "absolutePoints st \<noteq> []"
  shows "getBounds ov st =
    Inr (overlayAt ov (viewScale st)
      (midpoint_of (absolutePoints st ! (length (absolutePoints st) div 2 - 1))
                   (absolutePoints st ! (length (absolutePoints st) div 2))))"
proof -
  from assms(2) have m: "length (absolutePoints st) mod 2 \<noteq> 1"
    by (simp add: even_iff_mod_2_eq_zero)
  have h: "a + (b - a) / 2 = (a + b) / 2" for a b :: real
    by (simp add: field_simps)
  from assms(1,3) m show ?thesis
    by (simp add: getBounds_def overlayAt_def midpoint_of_def Let_def h)
qed

lemma getBounds_node:
  assumes "\<not> cellIsEdge st"
  shows "\<exists>a. getBounds ov st = Inr (overlayAt ov (viewScale st) a) \<and>
      (align ov = Some ''left'' \<longrightarrow> px a = rx (bounds st)) \<and>
      (align ov = Some ''center'' \<longrightarrow> px a = rx (bounds st) + width (bounds st) / 2) \<and>
      (align ov = Some ''right'' \<longrightarrow> px a = rx (bounds st) + width (bounds st)) \<and>
      (verticalAlign ov = Some ''top'' \<longrightarrow> py a = ry (bounds st)) \<and>
      (verticalAlign ov = Some ''middle'' \<longrightarrow>
         py a = ry (bounds st) + height (bounds st) / 2) \<and>
      (verticalAlign ov = Some ''bottom'' \<longrightarrow> py a = ry (bounds st) + height (bounds st))"
proof -
  let ?a = "\<lparr>px = (if align ov = Some ''left'' then rx (bounds st)
                   else if align ov = Some ''center''
                   then rx (bounds st) + width (bounds st) / 2
                   else rx (bounds st) + width (bounds st)),
             py = (if verticalAlign ov = Some ''top'' then ry (bounds st)
                   else if verticalAlign ov = Some ''middle''
                   then ry (bounds st) + height (bounds st) / 2
                   else ry (bounds st) + height (bounds st))\<rparr>"
  from assms have "getBounds ov st = Inr (overlayAt ov (viewScale st) ?a)"
    by (simp add: getBounds_def overlayAt_def Let_def)
  then show ?thesis
    by (intro exI [of _ ?a]) simp
qed

lemma getBounds_size:
  assumes "getBounds ov st = Inr r"
  shows "width r = imgWidth (img ov) * viewScale st \<and>
         height r = imgHeight (img ov) * viewScale st"
  using assms by (auto simp: getBounds_def Let_def split: if_splits sum.splits)

text \<open>
  C9. \<open>getBounds\<close> places the overlay at an anchor: for an edge state the middle absolute
  point when their number is odd, the midpoint of the two central points when it is even
  (and there are points); for a node state the point of the bounds that \<open>align\<close> and
  \<open>verticalAlign\<close> select. The rectangle is the image scaled by the view's scale, at the
  anchor minus \<open>(size * defaultOverlap - offset) * scale\<close>, that position rounded; every
  rectangle it returns has the scaled size.
\<close>

theorem getBounds_anchor:
  "(cellIsEdge st \<and> odd (length (absolutePoints st)) \<longrightarrow>
      getBounds ov st =
        Inr (overlayAt ov (viewScale st)
          (absolutePoints st ! (length (absolutePoints st) div 2)))) \<and>
   (cellIsEdge st \<and> even (length (absolutePoints st)) \<and> absolutePoints st \<noteq> [] \<longrightarrow>
      getBounds ov st =
        Inr (overlayAt ov (viewScale st)
          (midpoint_of (absolutePoints st ! (length (absolutePoints st) div 2 - 1))
                       (absolutePoints st ! (length (absolutePoints st) div 2))))) \<and>
   (\<not> cellIsEdge st \<longrightarrow>
      (\<exists>a. getBounds ov st = Inr (overlayAt ov (viewScale st) a) \<and>
        (align ov = Some ''left'' \<longrightarrow> px a = rx (bounds st)) \<and>
        (align ov = Some ''center'' \<longrightarrow> px a = rx (bounds st) + width (bounds st) / 2) \<and>
        (align ov = Some ''right'' \<longrightarrow> px a = rx (bounds st) + width (bounds st)) \<and>
        (verticalAlign ov = Some ''top'' \<longrightarrow> py a = ry (bounds st)) \<and>
        (verticalAlign ov = Some ''middle'' \<longrightarrow>
           py a = ry (bounds st) + height (bounds st) / 2) \<and>
        (verticalAlign ov = Some ''bottom'' \<longrightarrow>
           py a = ry (bounds st) + height (bounds st)))) \<and>
   (\<forall>r. getBounds ov st = Inr r \<longrightarrow>
      width r = imgWidth (img ov) * viewScale st \<and>
      height r = imgHeight (img ov) * viewScale st)"
  using getBounds_edge_odd [of st ov] getBounds_edge_even [of st ov]
    getBounds_node [of st ov] getBounds_size [of ov st]
  by blast

theorem getBounds_anchor_witness:
  "getBounds ov0 edgeState3 = Inr \<lparr>rx = 3, ry = - 5, width = 16, height = 10\<rparr> \<and>
   getBounds ov0 edgeState2 = Inr \<lparr>rx = - 2, ry = - 2, width = 16, height = 10\<rparr> \<and>
   getBounds ov0 nodeState0 = Inr \<lparr>rx = 26, ry = 20, width = 32, height = 20\<rparr>"
proof -
  have "getBounds ov0 edgeState3 = Inr \<lparr>rx = 3, ry = - 5, width = 16, height = 10\<rparr>"
    using getBounds_anchor [of edgeState3 ov0]
    by (simp add: edgeState3_def ov0_def overlayAt_def math_round_def)
  moreover
  have "getBounds ov0 edgeState2 = Inr \<lparr>rx = - 2, ry = - 2, width = 16, height = 10\<rparr>"
    using getBounds_anchor [of edgeState2 ov0]
    by (simp add: edgeState2_def ov0_def overlayAt_def midpoint_of_def math_round_def)
  moreover
  have "getBounds ov0 nodeState0 = Inr \<lparr>rx = 26, ry = 20, width = 32, height = 20\<rparr>"
    using getBounds_anchor [of nodeState0 ov0]
    by (auto simp: nodeState0_def ov0_def overlayAt_def math_round_def)
  ultimately show ?thesis by blast
qed

subsection \<open>Router endpoint utilities\<close>

lemma getSourceEndpoint_resolved:
  "sourceEndpoint v = Some p \<Longrightarrow> getSourceEndpoint v pad s = (p, s)"
  by (simp add: getSourceEndpoint_def)

lemma getTargetEndpoint_resolved:
  "targetEndpoint v = Some p \<Longrightarrow> getTargetEndpoint v pad s = (p, s)"
  by (simp add: getTargetEndpoint_def)

lemma getSourceEndpoint_code_center:
  "sourceEndpoint v = None \<Longrightarrow>
   fst (getSourceEndpoint v pad s) =
     centerOf (expandBy (rects s (sourceBBox v)) (normalizeSides (paddingOr20 pad)))"
  by (auto simp: getSourceEndpoint_def getSourceBBox_def rect_clone_def alloc_def
      moveAndExpand_def getPaddingBox_def expandBy_def centerOf_def getCenter_def Let_def
      split: prod.splits)

lemma getTargetEndpoint_code_center:
  "targetEndpoint v = None \<Longrightarrow>
   fst (getTargetEndpoint v pad s) =
     centerOf (expandBy (rects s (targetBBox v)) (normalizeSides (paddingOr20 pad)))"
  by (auto simp: getTargetEndpoint_def getTargetBBox_def rect_clone_def alloc_def
      moveAndExpand_def getPaddingBox_def expandBy_def centerOf_def getCenter_def Let_def
      split: prod.splits)

text \<open>
  A padding of the number 0 is replaced by 20 in the code; the box differs, its centre
  does not.
\<close>

lemma center_paddingOr20:
  "centerOf (expandBy b (normalizeSides (paddingOr20 pad))) =
   centerOf (expandBy b (normalizeSides (paddingOrDefault pad)))"
proof (cases pad)
  case None
  then show ?thesis by (simp add: paddingOr20_def paddingOrDefault_def)
next
  case (Some box)
  show ?thesis
  proof (cases box)
    case (SideNumber n)
    with Some show ?thesis
      by (simp add: paddingOr20_def paddingOrDefault_def normalizeSides_def expandBy_def
          centerOf_def add_divide_distrib)
  next
    case (SideObject ob)
    with Some show ?thesis by (simp add: paddingOr20_def paddingOrDefault_def)
  qed
qed

lemma center_default_padding:
  "normalizeSides (paddingOrDefault None) =
     \<lparr>topSide = 20, rightSide = 20, bottomSide = 20, leftSide = 20\<rparr> \<and>
   centerOf (expandBy b (normalizeSides (paddingOrDefault None))) = centerOf b"
  by (simp add: paddingOrDefault_def normalizeSides_def expandBy_def centerOf_def
      add_divide_distrib)

lemma getSourceEndpoint_center:
  assumes "sourceEndpoint v = None"
  shows "fst (getSourceEndpoint v pad s) =
     centerOf (expandBy (rects s (sourceBBox v)) (normalizeSides (paddingOrDefault pad)))"
  using getSourceEndpoint_code_center [OF assms, of pad s]
  by (simp only: center_paddingOr20)

lemma getTargetEndpoint_center:
  assumes "targetEndpoint v = None"
  shows "fst (getTargetEndpoint v pad s) =
     centerOf (expandBy (rects s (targetBBox v)) (normalizeSides (paddingOrDefault pad)))"
  using getTargetEndpoint_code_center [OF assms, of pad s]
  by (simp only: center_paddingOr20)

text \<open>
  C5. \<open>getSourceEndpoint\<close> (and \<open>getTargetEndpoint\<close>) returns the view's resolved endpoint
  when there is one, and otherwise the centre of the terminal's bounding box grown by the
  normalised padding, 20 on every side when no padding is given; with that default the
  point is the centre of the terminal's own box.
\<close>

theorem endpoint_resolved_or_center:
  "(sourceEndpoint v = Some p \<longrightarrow> fst (getSourceEndpoint v pad s) = p) \<and>
   (sourceEndpoint v = None \<longrightarrow>
      fst (getSourceEndpoint v pad s) =
        centerOf (expandBy (rects s (sourceBBox v)) (normalizeSides (paddingOrDefault pad)))) \<and>
   (targetEndpoint v = Some q \<longrightarrow> fst (getTargetEndpoint v pad s) = q) \<and>
   (targetEndpoint v = None \<longrightarrow>
      fst (getTargetEndpoint v pad s) =
        centerOf (expandBy (rects s (targetBBox v)) (normalizeSides (paddingOrDefault pad)))) \<and>
   normalizeSides (paddingOrDefault None) =
     \<lparr>topSide = 20, rightSide = 20, bottomSide = 20, leftSide = 20\<rparr> \<and>
   (sourceEndpoint v = None \<longrightarrow>
      fst (getSourceEndpoint v None s) = centerOf (rects s (sourceBBox v))) \<and>
   (targetEndpoint v = None \<longrightarrow>
      fst (getTargetEndpoint v None s) = centerOf (rects s (targetBBox v)))"
proof -
  have a: "sourceEndpoint v = Some p \<longrightarrow> fst (getSourceEndpoint v pad s) = p"
    by (simp add: getSourceEndpoint_resolved)
  have b: "targetEndpoint v = Some q \<longrightarrow> fst (getTargetEndpoint v pad s) = q"
    by (simp add: getTargetEndpoint_resolved)
  have c: "sourceEndpoint v = None \<longrightarrow>
      fst (getSourceEndpoint v None s) = centerOf (rects s (sourceBBox v))"
    using getSourceEndpoint_center [of v None s]
      center_default_padding [of "rects s (sourceBBox v)"] by auto
  have d: "targetEndpoint v = None \<longrightarrow>
      fst (getTargetEndpoint v None s) = centerOf (rects s (targetBBox v))"
    using getTargetEndpoint_center [of v None s]
      center_default_padding [of "rects s (targetBBox v)"] by auto
  from a b c d getSourceEndpoint_center [of v pad s] getTargetEndpoint_center [of v pad s]
    center_default_padding [of "rects s (sourceBBox v)"]
  show ?thesis by blast
qed


theorem endpoint_resolved_or_center_witness:
  "fst (getSourceEndpoint view0 pad0 store0) = \<lparr>px = 45, py = 15\<rparr> \<and>
   fst (getSourceEndpoint view0 None store0) = \<lparr>px = 40, py = 15\<rparr> \<and>
   fst (getTargetEndpoint view0 pad0 store0) = \<lparr>px = 200, py = 15\<rparr>"
proof -
  have s: "sourceEndpoint view0 = None" and t: "targetEndpoint view0 = Some \<lparr>px = 200, py = 15\<rparr>"
    and b: "rects store0 (sourceBBox view0) = \<lparr>rx = 0, ry = 0, width = 80, height = 30\<rparr>"
    by (simp_all add: view0_def store0_def)
  have "fst (getSourceEndpoint view0 pad0 store0) = \<lparr>px = 45, py = 15\<rparr>"
    using endpoint_resolved_or_center [of view0 _ pad0 store0] s b
    by (simp add: pad0_def paddingOrDefault_def normalizeSides_def
      expandBy_def centerOf_def orElse_def)
  moreover have "fst (getSourceEndpoint view0 None store0) = \<lparr>px = 40, py = 15\<rparr>"
    using endpoint_resolved_or_center [of view0 _ pad0 store0] s b
    by (simp add: centerOf_def)
  moreover have "fst (getTargetEndpoint view0 pad0 store0) = \<lparr>px = 200, py = 15\<rparr>"
    using endpoint_resolved_or_center [of view0 _ pad0 store0 "\<lparr>px = 200, py = 15\<rparr>"] t
    by simp
  ultimately show ?thesis by blast
qed

subsection \<open>Two runs give the same points\<close>

lemma getSourceEndpoint_frame:
  "r < fresh s \<Longrightarrow> rects (snd (getSourceEndpoint v pad s)) r = rects s r"
  by (auto simp: getSourceEndpoint_def getSourceBBox_def rect_clone_def alloc_def
      moveAndExpand_def split: prod.splits option.splits)

lemma getTargetEndpoint_frame:
  "r < fresh s \<Longrightarrow> rects (snd (getTargetEndpoint v pad s)) r = rects s r"
  by (auto simp: getTargetEndpoint_def getTargetBBox_def rect_clone_def alloc_def
      moveAndExpand_def split: prod.splits option.splits)

lemma getSourceEndpoint_store_indep:
  "rects s (sourceBBox v) = rects s' (sourceBBox v) \<Longrightarrow>
   fst (getSourceEndpoint v pad s) = fst (getSourceEndpoint v pad s')"
  by (auto simp: getSourceEndpoint_def getSourceBBox_def rect_clone_def alloc_def
      moveAndExpand_def getCenter_def split: prod.splits option.splits)

lemma getTargetEndpoint_store_indep:
  "rects s (targetBBox v) = rects s' (targetBBox v) \<Longrightarrow>
   fst (getTargetEndpoint v pad s) = fst (getTargetEndpoint v pad s')"
  by (auto simp: getTargetEndpoint_def getTargetBBox_def rect_clone_def alloc_def
      moveAndExpand_def getCenter_def split: prod.splits option.splits)

lemma calloutPerimeter_reads:
  assumes rp: "\<forall>b st st' n orth. style st = style st' \<and> viewScale st = viewScale st' \<longrightarrow>
      rectanglePerimeter env b st n orth = rectanglePerimeter env b st' n orth"
    and st: "style st1 = style st2" and sc: "viewScale st1 = viewScale st2"
  shows "calloutPerimeter env b st1 n orth = calloutPerimeter env b st2 n orth"
proof -
  let ?db = "getDirectedBounds env b
      \<lparr>rx = 0, ry = 0, width = 0,
        height = getFactor env (style st2) (protoFactor env) (height b) * viewScale st2\<rparr>
      (style st2)"
  from rp st sc have "rectanglePerimeter env ?db st1 n orth = rectanglePerimeter env ?db st2 n orth"
    by blast
  then show ?thesis
    unfolding calloutPerimeter_def Let_def st sc .
qed

text \<open>
  C6. The endpoint utilities leave every rectangle that existed before the call as it was
  (they work on a clone), so a second call, in the store the first one left, returns the
  same point; the point depends on the store only through the view's own bounding box.
  \<open>calloutPerimeter\<close> reads of its state the style and the view's scale only (given that
  \<open>rectanglePerimeter\<close> reads no more): equal bounds, style, scale, next point and
  orthogonal flag give equal points.
\<close>

theorem endpoints_and_perimeter_deterministic:
  "(sourceBBox v < fresh s \<and> targetBBox v < fresh s \<longrightarrow>
      fst (getSourceEndpoint v pad (snd (getSourceEndpoint v pad s)))
        = fst (getSourceEndpoint v pad s) \<and>
      fst (getTargetEndpoint v pad (snd (getTargetEndpoint v pad s)))
        = fst (getTargetEndpoint v pad s) \<and>
      fst (getSourceEndpoint v pad (snd (getTargetEndpoint v pad s)))
        = fst (getSourceEndpoint v pad s) \<and>
      fst (getTargetEndpoint v pad (snd (getSourceEndpoint v pad s)))
        = fst (getTargetEndpoint v pad s) \<and>
      rects (snd (getSourceEndpoint v pad s)) (sourceBBox v) = rects s (sourceBBox v) \<and>
      rects (snd (getTargetEndpoint v pad s)) (targetBBox v) = rects s (targetBBox v)) \<and>
   (rects s (sourceBBox v) = rects s' (sourceBBox v) \<longrightarrow>
      fst (getSourceEndpoint v pad s) = fst (getSourceEndpoint v pad s')) \<and>
   (rects s (targetBBox v) = rects s' (targetBBox v) \<longrightarrow>
      fst (getTargetEndpoint v pad s) = fst (getTargetEndpoint v pad s')) \<and>
   ((\<forall>b st st' n orth. style st = style st' \<and> viewScale st = viewScale st' \<longrightarrow>
        rectanglePerimeter env b st n orth = rectanglePerimeter env b st' n orth) \<and>
    style st1 = style st2 \<and> viewScale st1 = viewScale st2 \<longrightarrow>
      calloutPerimeter env bnds st1 nxt orthogonal
        = calloutPerimeter env bnds st2 nxt orthogonal)"
proof -
  have run2: "fst (getSourceEndpoint v pad (snd (getSourceEndpoint v pad s)))
        = fst (getSourceEndpoint v pad s)"
    if "sourceBBox v < fresh s"
    by (rule getSourceEndpoint_store_indep) (rule getSourceEndpoint_frame [OF that])
  have run2t: "fst (getTargetEndpoint v pad (snd (getTargetEndpoint v pad s)))
        = fst (getTargetEndpoint v pad s)"
    if "targetBBox v < fresh s"
    by (rule getTargetEndpoint_store_indep) (rule getTargetEndpoint_frame [OF that])
  have cross: "fst (getSourceEndpoint v pad (snd (getTargetEndpoint v pad s)))
        = fst (getSourceEndpoint v pad s)"
    if "sourceBBox v < fresh s"
    by (rule getSourceEndpoint_store_indep) (rule getTargetEndpoint_frame [OF that])
  have crosst: "fst (getTargetEndpoint v pad (snd (getSourceEndpoint v pad s)))
        = fst (getTargetEndpoint v pad s)"
    if "targetBBox v < fresh s"
    by (rule getTargetEndpoint_store_indep) (rule getSourceEndpoint_frame [OF that])
  have frame: "rects (snd (getSourceEndpoint v pad s)) (sourceBBox v) = rects s (sourceBBox v)"
    if "sourceBBox v < fresh s"
    using that by (rule getSourceEndpoint_frame)
  have framet: "rects (snd (getTargetEndpoint v pad s)) (targetBBox v) = rects s (targetBBox v)"
    if "targetBBox v < fresh s"
    using that by (rule getTargetEndpoint_frame)
  have callout: "(\<forall>b st st' n orth. style st = style st' \<and> viewScale st = viewScale st' \<longrightarrow>
        rectanglePerimeter env b st n orth = rectanglePerimeter env b st' n orth) \<and>
    style st1 = style st2 \<and> viewScale st1 = viewScale st2 \<longrightarrow>
      calloutPerimeter env bnds st1 nxt orthogonal
        = calloutPerimeter env bnds st2 nxt orthogonal"
  proof (intro impI, elim conjE)
    assume "\<forall>b st st' n orth. style st = style st' \<and> viewScale st = viewScale st' \<longrightarrow>
        rectanglePerimeter env b st n orth = rectanglePerimeter env b st' n orth"
      and "style st1 = style st2" and "viewScale st1 = viewScale st2"
    then show "calloutPerimeter env bnds st1 nxt orthogonal
        = calloutPerimeter env bnds st2 nxt orthogonal"
      by (rule calloutPerimeter_reads)
  qed
  have indep: "rects s (sourceBBox v) = rects s' (sourceBBox v) \<longrightarrow>
      fst (getSourceEndpoint v pad s) = fst (getSourceEndpoint v pad s')"
    using getSourceEndpoint_store_indep [of s v s' pad] by blast
  have indept: "rects s (targetBBox v) = rects s' (targetBBox v) \<longrightarrow>
      fst (getTargetEndpoint v pad s) = fst (getTargetEndpoint v pad s')"
    using getTargetEndpoint_store_indep [of s v s' pad] by blast
  from run2 run2t cross crosst frame framet
  have runs: "sourceBBox v < fresh s \<and> targetBBox v < fresh s \<longrightarrow>
      fst (getSourceEndpoint v pad (snd (getSourceEndpoint v pad s)))
        = fst (getSourceEndpoint v pad s) \<and>
      fst (getTargetEndpoint v pad (snd (getTargetEndpoint v pad s)))
        = fst (getTargetEndpoint v pad s) \<and>
      fst (getSourceEndpoint v pad (snd (getTargetEndpoint v pad s)))
        = fst (getSourceEndpoint v pad s) \<and>
      fst (getTargetEndpoint v pad (snd (getSourceEndpoint v pad s)))
        = fst (getTargetEndpoint v pad s) \<and>
      rects (snd (getSourceEndpoint v pad s)) (sourceBBox v) = rects s (sourceBBox v) \<and>
      rects (snd (getTargetEndpoint v pad s)) (targetBBox v) = rects s (targetBBox v)"
    by simp
  from runs indep indept callout show ?thesis
    by (intro conjI)
qed



theorem endpoints_and_perimeter_deterministic_witness:
  "fst (getSourceEndpoint view0 pad0 (snd (getSourceEndpoint view0 pad0 store0)))
     = fst (getSourceEndpoint view0 pad0 store0) \<and>
   rects (snd (getSourceEndpoint view0 pad0 store0)) 0
     = \<lparr>rx = 0, ry = 0, width = 80, height = 30\<rparr> \<and>
   calloutPerimeter perimeterEnv0 \<lparr>rx = 0, ry = 0, width = 80, height = 60\<rparr>
       nodeState0 \<lparr>px = 200, py = 15\<rparr> False
     = calloutPerimeter perimeterEnv0 \<lparr>rx = 0, ry = 0, width = 80, height = 60\<rparr>
       (nodeState0\<lparr>bounds := \<lparr>rx = 5, ry = 5, width = 1, height = 1\<rparr>,
                    absolutePoints := [\<lparr>px = 1, py = 1\<rparr>]\<rparr>) \<lparr>px = 200, py = 15\<rparr> False"
proof -
  have wf: "sourceBBox view0 < fresh store0 \<and> targetBBox view0 < fresh store0"
    by (simp add: view0_def store0_def)
  have rp: "\<forall>b st st' n orth. style st = style st' \<and> viewScale st = viewScale st' \<longrightarrow>
      rectanglePerimeter perimeterEnv0 b st n orth = rectanglePerimeter perimeterEnv0 b st' n orth"
    by (simp add: perimeterEnv0_def)
  have eq: "style nodeState0 = style (nodeState0\<lparr>bounds := \<lparr>rx = 5, ry = 5, width = 1, height = 1\<rparr>,
                    absolutePoints := [\<lparr>px = 1, py = 1\<rparr>]\<rparr>) \<and>
      viewScale nodeState0 = viewScale (nodeState0\<lparr>bounds := \<lparr>rx = 5, ry = 5, width = 1, height = 1\<rparr>,
                    absolutePoints := [\<lparr>px = 1, py = 1\<rparr>]\<rparr>)"
    by simp
  have b0: "sourceBBox view0 = 0" "rects store0 0 = \<lparr>rx = 0, ry = 0, width = 80, height = 30\<rparr>"
    by (simp_all add: view0_def store0_def)
  from endpoints_and_perimeter_deterministic
    [of view0 store0 pad0 store0 perimeterEnv0 nodeState0
        "nodeState0\<lparr>bounds := \<lparr>rx = 5, ry = 5, width = 1, height = 1\<rparr>,
                     absolutePoints := [\<lparr>px = 1, py = 1\<rparr>]\<rparr>"
        "\<lparr>rx = 0, ry = 0, width = 80, height = 60\<rparr>" "\<lparr>px = 200, py = 15\<rparr>" False]
    wf rp eq b0
  show ?thesis by metis
qed

subsection \<open>The hook decorator\<close>

lemma hook_absent:
  "options (hookTarget hookName methodName) = None \<Longrightarrow>
   hook hookName ign methodName raw options args this = raw args this"
  by (simp add: hook_def)

lemma hook_null_result:
  "options (hookTarget hookName methodName) = Some h \<Longrightarrow>
   h (raw args) args (this\<lparr>nativeValue := True\<rparr>) = (None, this1) \<Longrightarrow>
   hook hookName False methodName raw options args this
     = raw args (this1\<lparr>nativeValue := False\<rparr>)"
  by (simp add: hook_def)

lemma hook_result:
  "options (hookTarget hookName methodName) = Some h \<Longrightarrow>
   h (raw args) args (this\<lparr>nativeValue := True\<rparr>) = (ret, this1) \<Longrightarrow>
   ret \<noteq> None \<or> ign \<Longrightarrow>
   hook hookName ign methodName raw options args this = (ret, this1\<lparr>nativeValue := False\<rparr>)"
  by (auto simp: hook_def)

lemma hook_quiet:
  assumes "options (hookTarget hookName methodName) = Some h"
    and "h (raw args) args (this\<lparr>nativeValue := True\<rparr>) = (None, this\<lparr>nativeValue := True\<rparr>)"
    and "\<not> nativeValue this"
  shows "hook hookName False methodName raw options args this = raw args this"
proof -
  from assms(3) have "this\<lparr>nativeValue := True, nativeValue := False\<rparr> = this" by simp
  with assms(1,2) show ?thesis by (simp add: hook_def)
qed

text \<open>
  C10, as the code has it. With no hook under the configured name the wrapped method is
  the original one. A hook that returns null or undefined (with \<open>ignoreNullResult\<close> false)
  is followed by the original method, run on the graph as the hook left it and without
  \<open>getNativeValue\<close>; this is the original method's own result when the hook left the graph
  as it found it and the graph had no \<open>getNativeValue\<close> before. A hook that returns a
  value (or any hook, with \<open>ignoreNullResult\<close> true) decides the result, and the wrapper
  does not run the original method.
\<close>

theorem hook_wraps_method:
  "(options (hookTarget hookName methodName) = None \<longrightarrow>
      hook hookName ign methodName raw options args this = raw args this) \<and>
   (options (hookTarget hookName methodName) = Some h \<and>
    h (raw args) args (this\<lparr>nativeValue := True\<rparr>) = (None, this1) \<longrightarrow>
      hook hookName False methodName raw options args this
        = raw args (this1\<lparr>nativeValue := False\<rparr>)) \<and>
   (options (hookTarget hookName methodName) = Some h \<and>
    h (raw args) args (this\<lparr>nativeValue := True\<rparr>) = (None, this\<lparr>nativeValue := True\<rparr>) \<and>
    \<not> nativeValue this \<longrightarrow>
      hook hookName False methodName raw options args this = raw args this) \<and>
   (options (hookTarget hookName methodName) = Some h \<and>
    h (raw args) args (this\<lparr>nativeValue := True\<rparr>) = (ret, this1) \<and>
    (ret \<noteq> None \<or> ign) \<longrightarrow>
      hook hookName ign methodName raw options args this
        = (ret, this1\<lparr>nativeValue := False\<rparr>))"
  using hook_absent [where options = options and hookName = hookName
      and methodName = methodName and ign = ign and raw = raw and args = args and this = this]
    hook_null_result [where options = options and hookName = hookName
      and methodName = methodName and h = h and raw = raw and args = args and this = this
      and ?this1.0 = this1]
    hook_quiet [where options = options and hookName = hookName
      and methodName = methodName and h = h and raw = raw and args = args and this = this]
    hook_result [where options = options and hookName = hookName
      and methodName = methodName and h = h and raw = raw and args = args and this = this
      and ret = ret and ?this1.0 = this1 and ign = ign]
  by blast

theorem hook_wraps_method_witness:
  "hook None False ''getCount'' rawCounter (optionsWith quietHook) []
       \<lparr>nativeValue = False, content = 7\<rparr>
     = (Some 7, \<lparr>nativeValue = False, content = 7\<rparr>) \<and>
   hook (Some ''other'') False ''getCount'' rawCounter (optionsWith quietHook) []
       \<lparr>nativeValue = False, content = 7\<rparr>
     = (Some 7, \<lparr>nativeValue = False, content = 7\<rparr>) \<and>
   hook (Some []) False ''getCount'' rawCounter (optionsWith answeringHook) []
       \<lparr>nativeValue = False, content = 7\<rparr>
     = (Some 42, \<lparr>nativeValue = False, content = 7\<rparr>) \<and>
   hook None False ''getCount'' rawCounter (optionsWith countingHook) []
       \<lparr>nativeValue = False, content = 7\<rparr>
     = (Some 8, \<lparr>nativeValue = False, content = 8\<rparr>)"
proof -
  let ?g = "\<lparr>nativeValue = False, content = 7::int\<rparr>"
  have "hook None False ''getCount'' rawCounter (optionsWith quietHook) [] ?g = (Some 7, ?g)"
    using hook_wraps_method [where options = "optionsWith quietHook" and hookName = None
        and methodName = "''getCount''" and raw = rawCounter and args = "[]" and this = ?g
        and h = quietHook]
    by (simp add: optionsWith_def hookTarget_def quietHook_def rawCounter_def)
  moreover
  have "hook (Some ''other'') False ''getCount'' rawCounter (optionsWith quietHook) [] ?g
      = (Some 7, ?g)"
    using hook_wraps_method [where options = "optionsWith quietHook"
        and hookName = "Some ''other''" and methodName = "''getCount''" and raw = rawCounter
        and args = "[]" and this = ?g and ign = False]
    by (simp add: optionsWith_def hookTarget_def rawCounter_def)
  moreover
  have "hook (Some []) False ''getCount'' rawCounter (optionsWith answeringHook) [] ?g
      = (Some 42, ?g)"
    using hook_wraps_method [where options = "optionsWith answeringHook"
        and hookName = "Some []" and methodName = "''getCount''" and raw = rawCounter
        and args = "[]" and this = ?g and ign = False and h = answeringHook
        and ret = "Some 42" and ?this1.0 = "?g\<lparr>nativeValue := True\<rparr>"]
    by (simp add: optionsWith_def hookTarget_def answeringHook_def)
  moreover
  have "hook None False ''getCount'' rawCounter (optionsWith countingHook) [] ?g
      = (Some 8, \<lparr>nativeValue = False, content = 8\<rparr>)"
    using hook_wraps_method [where options = "optionsWith countingHook" and hookName = None
        and methodName = "''getCount''" and raw = rawCounter and args = "[]" and this = ?g
        and h = countingHook and ?this1.0 = "\<lparr>nativeValue = True, content = 8\<rparr>"]
    by (simp add: optionsWith_def hookTarget_def countingHook_def rawCounter_def)
  ultimately show ?thesis by blast
qed

text \<open>
  The hook that counts returns null, \<open>ignoreNullResult\<close> is false, and the wrapped method
  returns 8 where the original returns 7.
\<close>

theorem hook_not_equivalent_counterexample:
  "optionsWith countingHook (hookTarget None ''getCount'') = Some countingHook \<and>
   fst (countingHook (rawCounter []) [] \<lparr>nativeValue = True, content = 7\<rparr>) = None \<and>
   hook None False ''getCount'' rawCounter (optionsWith countingHook) []
       \<lparr>nativeValue = False, content = 7\<rparr>
     = (Some 8, \<lparr>nativeValue = False, content = 8\<rparr>) \<and>
   rawCounter [] \<lparr>nativeValue = False, content = 7\<rparr>
     = (Some 7, \<lparr>nativeValue = False, content = 7\<rparr>)"
  by (simp add: hook_def optionsWith_def hookTarget_def countingHook_def rawCounter_def)

subsection \<open>EdgeHandlerMarker.getCell\<close>







subsection \<open>EdgeHandler.getPreviewPoints\<close>

lemma mergeDropped_none:
  assumes "\<forall>j < length hs. int (i + j) \<noteq> idx \<longrightarrow>
      (\<forall>b. hs ! j = Some b \<longrightarrow> \<not> containsPoint g b p)"
  shows "mergeDropped g idx p i hs acc = acc"
  using assms
proof (induction hs arbitrary: i acc)
  case Nil
  then show ?case by simp
next
  case (Cons handle rest)
  obtain pts res where acc: "acc = (pts, res)" by (cases acc)
  from Cons.prems have here: "int i \<noteq> idx \<longrightarrow> (\<forall>b. handle = Some b \<longrightarrow> \<not> containsPoint g b p)"
    by force
  have "\<forall>j < length rest. int (Suc i + j) \<noteq> idx \<longrightarrow>
      (\<forall>b. rest ! j = Some b \<longrightarrow> \<not> containsPoint g b p)"
  proof (intro allI impI)
    fix j b
    assume "j < length rest" "int (Suc i + j) \<noteq> idx" "rest ! j = Some b"
    with Cons.prems [rule_format, of "Suc j" b] show "\<not> containsPoint g b p" by simp
  qed
  from Cons.IH [OF this] here acc show ?case
    by (auto split: option.splits)
qed

lemma js_set_in_range:
  "0 \<le> i \<Longrightarrow> nat i < length xs \<Longrightarrow> js_set xs i v = xs[nat i := Some v]"
  by (simp add: js_set_def)

lemma getPreviewPoints_inner:
  assumes geo: "geometryOf m (stateCell h) = Some geo" and ps: "points geo = Some ps"
    and inner: "\<not> isSourceHandle h" "\<not> isTargetHandle h" "\<not> isVisualHandle g idx"
    and idx: "0 < idx" "idx \<le> int (length ps)"
    and nohandle: "\<forall>hs. handles h = Some hs \<longrightarrow>
      (\<forall>j < length hs. int j \<noteq> idx \<longrightarrow> (\<forall>b. hs ! j = Some b \<longrightarrow> \<not> containsPoint g b p))"
    and nostraighten: "\<not> straightRemoveEnabled h \<or> altDown e \<or> checkRemove g h idx p = Inr False"
  shows "getPreviewPoints g m h idx p e =
    Inr (Some (ps[nat (idx - 1) := Some (convertPoint g p False)]))"
proof -
  have merged: "mergePhase g h idx p ps = (ps, False)"
  proof (cases "handles h")
    case None
    then show ?thesis by (simp add: mergePhase_def)
  next
    case (Some hs)
    with nohandle have "\<forall>j < length hs. int (0 + j) \<noteq> idx \<longrightarrow>
        (\<forall>b. hs ! j = Some b \<longrightarrow> \<not> containsPoint g b p)" by simp
    from mergeDropped_none [OF this] Some show ?thesis by (simp add: mergePhase_def)
  qed
  have straight: "straightenPhase g h idx p e (ps, False) = Inr (ps, False)"
    using nostraighten by (auto simp: straightenPhase_def)
  from idx have "0 \<le> idx - 1" "nat (idx - 1) < length ps" by simp_all
  then have set: "js_set ps (idx - 1) (convertPoint g p False)
      = ps[nat (idx - 1) := Some (convertPoint g p False)]"
    by (rule js_set_in_range)
  show ?thesis
    using geo ps inner by (simp add: getPreviewPoints_def merged straight set)
qed

text \<open>
  C7. Dragging an inner handle (not the source's, not the target's, not a virtual one) at
  index \<open>i\<close> of an edge that has a waypoint at position \<open>i - 1\<close>, with the drag point in
  no other handle's bounds and no straighten removal, gives the edge's waypoint list with
  the converted drag point at position \<open>i - 1\<close>: the list keeps its length, and every
  other waypoint stays where it was.
\<close>

theorem getPreviewPoints_replaces_waypoint:
  assumes "geometryOf m (stateCell h) = Some geo" and "points geo = Some ps"
    and "\<not> isSourceHandle h" and "\<not> isTargetHandle h" and "\<not> isVisualHandle g idx"
    and "0 < idx" and "idx \<le> int (length ps)"
    and "\<forall>hs. handles h = Some hs \<longrightarrow>
      (\<forall>j < length hs. int j \<noteq> idx \<longrightarrow> (\<forall>b. hs ! j = Some b \<longrightarrow> \<not> containsPoint g b p))"
    and "\<not> straightRemoveEnabled h \<or> altDown e \<or> checkRemove g h idx p = Inr False"
  shows "\<exists>qs. getPreviewPoints g m h idx p e = Inr (Some qs) \<and>
      qs = ps[nat (idx - 1) := Some (convertPoint g p False)] \<and>
      length qs = length ps \<and>
      qs ! nat (idx - 1) = Some (convertPoint g p False) \<and>
      (\<forall>j < length ps. j \<noteq> nat (idx - 1) \<longrightarrow> qs ! j = ps ! j)"
proof -
  from assms(6,7) have "nat (idx - 1) < length ps" by simp
  with getPreviewPoints_inner [OF assms] show ?thesis by simp
qed

theorem getPreviewPoints_replaces_waypoint_witness:
  "getPreviewPoints graphEnv0 model0 handler0 1 \<lparr>px = 12, py = 14\<rparr> event0
     = Inr (Some [Some \<lparr>px = 6, py = 7\<rparr>, Some \<lparr>px = 9, py = 5\<rparr>])"
proof -
  let ?p = "\<lparr>px = 12, py = 14\<rparr>"
  have geo: "geometryOf model0 (stateCell handler0) = Some geo0"
    and ps: "points geo0 = Some [Some \<lparr>px = 5, py = 5\<rparr>, Some \<lparr>px = 9, py = 5\<rparr>]"
    and inner: "\<not> isSourceHandle handler0" "\<not> isTargetHandle handler0"
      "\<not> isVisualHandle graphEnv0 1"
    by (simp_all add: model0_def handler0_def geo0_def graphEnv0_def)
  have nohandle: "\<forall>hs. handles handler0 = Some hs \<longrightarrow>
      (\<forall>j < length hs. int j \<noteq> 1 \<longrightarrow>
        (\<forall>b. hs ! j = Some b \<longrightarrow> \<not> containsPoint graphEnv0 b ?p))"
    by (auto simp: handler0_def graphEnv0_def less_Suc_eq nth_Cons')
  have nostraighten: "\<not> straightRemoveEnabled handler0 \<or> altDown event0
      \<or> checkRemove graphEnv0 handler0 1 ?p = Inr False"
    by (simp add: checkRemove_def straightenAbs_def js_set_def js_get_def handler0_def
        graphEnv0_def Let_def)
  have conv: "convertPoint graphEnv0 ?p False = \<lparr>px = 6, py = 7\<rparr>"
    by (simp add: convertPoint_def graphEnv0_def math_round_def Let_def)
  from getPreviewPoints_replaces_waypoint
    [OF geo ps inner _ _ nohandle nostraighten] conv
  show ?thesis by simp
qed

subsection \<open>EdgeHandler.reset\<close>


lemma redrawHandles_keeps:
  assumes "redrawHandles g h = Inr h'"
  shows "stateCell h' = stateCell h \<and> isLabelHandle h' = isLabelHandle h"
  using assms
  by (auto simp: redrawHandles_def Let_def split: option.splits if_splits sum.splits)





lemma redraw_null_geometry:
  assumes "geometryOf m (stateCell h) = None"
  shows "redraw g m h = Inl TypeError"
proof (cases "redrawHandles g (h\<lparr>habsolutePoints := stateAbsolutePoints h\<rparr>)")
  case (Inl a)
  then show ?thesis by (cases a) (simp add: redraw_def)
next
  case (Inr h1)
  from redrawHandles_keeps [OF Inr] assms Inr show ?thesis by (simp add: redraw_def)
qed

lemma refresh_keeps:
  assumes "refresh g h = Inr h1"
  shows "stateCell h1 = stateCell h \<and> stateAbsolutePoints h1 = stateAbsolutePoints h"
  using assms by (auto simp: refresh_def Let_def split: option.splits if_splits)

lemma refresh_returns:
  "(\<exists>h1. refresh g h = Inr h1) = (\<not> hasVirtualHandles h)"
  by (simp add: refresh_def Let_def split: option.splits)

lemma refresh_throws:
  assumes "hasVirtualHandles h"
  shows "refresh g h = Inl TypeError"
  using assms by (simp add: refresh_def Let_def split: option.splits)



lemma reset_throws:
  assumes "geometryOf m (stateCell h) = None \<or> (active h \<and> hasVirtualHandles h)"
  shows "reset g m h = Inl TypeError"
proof (cases "active h \<and> hasVirtualHandles h")
  case True
  then show ?thesis using refresh_throws [of h g] by (simp add: reset_def)
next
  case False
  with assms have n: "geometryOf m (stateCell h) = None" by blast
  from False obtain h1 where a: "(if active h then refresh g h else Inr h) = Inr h1"
    using refresh_returns [of g h] by (cases "active h") auto
  then have s: "stateCell h1 = stateCell h"
    using refresh_keeps [of g h h1] by (simp split: if_splits)
  show ?thesis
    unfolding reset_def Let_def a sum.case
    by (rule redraw_null_geometry) (use n s in simp)
qed

text \<open>
  After the drag of the target handle, the reset handler has the state's absolute points
  again, the label position at the state's absolute offset, and the waypoints of the
  geometry as its points.
\<close>

lemma reset_redraws:
  "\<exists>h'. reset graphEnv0 model0 (handlerD\<lparr>index := None\<rparr>) = Inr h' \<and>
     habsolutePoints h' = stateAbsolutePoints handlerD \<and>
     labelPos h' = Some \<lparr>px = 9, py = 10\<rparr> \<and>
     hpoints h' = Some [Some \<lparr>px = 5, py = 5\<rparr>, Some \<lparr>px = 9, py = 5\<rparr>] \<and>
     \<not> active h' \<and> index h' = None"
  by (simp add: reset_def redraw_def redrawHandles_def redrawEndHandle_def refresh_def
      drawPreview_def createHandles_def createdHandle_def recenterFloor_def recenterRound_def
      js_put_def js_get_def handlerD_def handler0_def graphEnv0_def model0_def geo0_def
      math_round_def Let_def upt_conv_Cons)

subsection \<open>EdgeHandler.mouseUp\<close>







subsection \<open>Dropping a dangling end\<close>













lemma handlerD_facts:
  "index handlerD = Some 3" "hasMarker handlerD" "error handlerD = None"
  "\<not> isLabelHandle handlerD" "isTargetHandle handlerD" "\<not> isSourceHandle handlerD"
  "dropTerminal handlerD = None" "habsolutePoints handlerD \<noteq> []"
  "last (habsolutePoints handlerD) = \<lparr>px = 19, py = 1\<rparr>" "stateCell handlerD = 7"
  "startX handlerD = 10" "markedState handlerD = None" "cloneable handlerD"
  "stateAbsolutePoints handlerD \<noteq> []" "\<not> hasVirtualHandles handlerD"
  by (simp_all add: handlerD_def handler0_def dropTerminal_def)



subsection \<open>The preview of a fixed constraint\<close>

lemma updatePreviewState_style:
  assumes "\<forall>ed t s c. pstyle (updateFixedTerminalPoint v ed t s c) = pstyle ed"
    and "\<forall>p s ed. pstyle (setAbsoluteTerminalPoint v p s ed) = pstyle ed"
    and "\<forall>ed pts s t. pstyle (updateRouterPoints v ed pts s t) = pstyle ed"
    and "\<forall>ed s t. pstyle (updateFloatingTerminalPoints v ed s t) = pstyle ed"
  shows "pstyle (fst (updatePreviewState g v h edge pnt ts e outline))
    = previewStyle h (fst (previewConstraint v h pnt ts e outline)) (pstyle edge)"
  using assms by (simp add: updatePreviewState_def Let_def)

lemma updatePreviewState_constraints:
  "fst (snd (snd (updatePreviewState g v h edge pnt ts e outline)))
     = (if isSourceHandle h then fst (previewConstraint v h pnt ts e outline)
        else getConnectionConstraint v edge (stateSource v) True) \<and>
   snd (snd (snd (updatePreviewState g v h edge pnt ts e outline)))
     = (if \<not> isSourceHandle h \<and> isTargetHandle h
        then fst (previewConstraint v h pnt ts e outline)
        else getConnectionConstraint v edge
               (if isTargetHandle h then ts else stateTarget v) False)"
  by (simp add: updatePreviewState_def Let_def)

lemma previewStyle_source_fixed:
  assumes "isSourceHandle h" and "cpoint con = Some pt"
  shows "previewStyle h (Some con) sty = sty\<lparr>exitX := Some (px pt), exitY := Some (py pt)\<rparr>"
  using assms by (simp add: previewStyle_def)

lemma previewStyle_target_fixed:
  assumes "\<not> isSourceHandle h" and "isTargetHandle h" and "cpoint con = Some pt"
  shows "previewStyle h (Some con) sty = sty\<lparr>entryX := Some (px pt), entryY := Some (py pt)\<rparr>"
  using assms by (simp add: previewStyle_def)

lemma previewStyle_source_free:
  assumes "isSourceHandle h" and "c = None \<or> (\<exists>con. c = Some con \<and> cpoint con = None)"
  shows "previewStyle h c sty = sty\<lparr>exitX := None, exitY := None\<rparr>"
  using assms by (auto simp: previewStyle_def)

lemma previewStyle_target_free:
  assumes "\<not> isSourceHandle h" and "isTargetHandle h"
    and "c = None \<or> (\<exists>con. c = Some con \<and> cpoint con = None)"
  shows "previewStyle h c sty = sty\<lparr>entryX := None, entryY := None\<rparr>"
  using assms by (auto simp: previewStyle_def)

lemma resolveConstraint_fixed:
  assumes "cpoint con = Some pt"
  shows "resolveConstraint perimeter (Some con) b nearPoint
    = \<lparr>px = rx b + px pt * width b, py = ry b + py pt * height b\<rparr>"
  using assms by (simp add: resolveConstraint_def)

text \<open>
  C2. In \<open>updatePreviewState\<close>, a constraint of the dragged end that carries a fixed point
  puts exactly that point's coordinates into the preview's style, under \<open>exitX\<close>, \<open>exitY\<close>
  for the source handle and under \<open>entryX\<close>, \<open>entryY\<close> for the target handle; without a
  constraint, or with one that has no point, those keys are deleted. The other pair of
  keys is left as it was, and the constraint is the one handed to the view for that end
  (the view's functions are taken not to touch the style). Resolved as the design
  describes, a fixed constraint is mapped onto the bounds of the terminal with no call
  of the perimeter function and whatever the other terminal's point: for the point
  (0.5, 1) the result is the bottom centre of the bounds.
\<close>

theorem preview_fixed_constraint:
  assumes "\<forall>ed t s c. pstyle (updateFixedTerminalPoint v ed t s c) = pstyle ed"
    and "\<forall>p s ed. pstyle (setAbsoluteTerminalPoint v p s ed) = pstyle ed"
    and "\<forall>ed pts s t. pstyle (updateRouterPoints v ed pts s t) = pstyle ed"
    and "\<forall>ed s t. pstyle (updateFloatingTerminalPoints v ed s t) = pstyle ed"
    and "fst (previewConstraint v h pnt ts e outline) = c"
    and "updatePreviewState g v h edge pnt ts e outline = (edge', h', sourceC, targetC)"
  shows
   "(isSourceHandle h \<and> c = Some con \<and> cpoint con = Some pt \<longrightarrow>
       pstyle edge' = (pstyle edge)\<lparr>exitX := Some (px pt), exitY := Some (py pt)\<rparr> \<and>
       sourceC = Some con) \<and>
    (\<not> isSourceHandle h \<and> isTargetHandle h \<and> c = Some con \<and> cpoint con = Some pt \<longrightarrow>
       pstyle edge' = (pstyle edge)\<lparr>entryX := Some (px pt), entryY := Some (py pt)\<rparr> \<and>
       targetC = Some con) \<and>
    (isSourceHandle h \<and> (c = None \<or> (\<exists>con'. c = Some con' \<and> cpoint con' = None)) \<longrightarrow>
       pstyle edge' = (pstyle edge)\<lparr>exitX := None, exitY := None\<rparr>) \<and>
    (\<not> isSourceHandle h \<and> isTargetHandle h \<and>
     (c = None \<or> (\<exists>con'. c = Some con' \<and> cpoint con' = None)) \<longrightarrow>
       pstyle edge' = (pstyle edge)\<lparr>entryX := None, entryY := None\<rparr>) \<and>
    (cpoint con = Some pt \<longrightarrow>
       resolveConstraint perimeter (Some con) b nearPoint
         = \<lparr>px = rx b + px pt * width b, py = ry b + py pt * height b\<rparr>) \<and>
    (cpoint con = Some \<lparr>px = 1 / 2, py = 1\<rparr> \<longrightarrow>
       resolveConstraint perimeter (Some con) b nearPoint
         = \<lparr>px = rx b + width b / 2, py = ry b + height b\<rparr>)"
proof -
  from assms(6) have e': "edge' = fst (updatePreviewState g v h edge pnt ts e outline)"
    and sc: "sourceC = fst (snd (snd (updatePreviewState g v h edge pnt ts e outline)))"
    and tc: "targetC = snd (snd (snd (updatePreviewState g v h edge pnt ts e outline)))"
    by simp_all
  have sty: "pstyle edge' = previewStyle h c (pstyle edge)"
    unfolding e' using updatePreviewState_style [OF assms(1-4), of g h edge pnt ts e outline]
    by (simp add: assms(5))
  have srcC: "isSourceHandle h \<longrightarrow> sourceC = c"
    unfolding sc using updatePreviewState_constraints [of g v h edge pnt ts e outline]
    by (simp add: assms(5))
  have trgC: "\<not> isSourceHandle h \<and> isTargetHandle h \<longrightarrow> targetC = c"
    unfolding tc using updatePreviewState_constraints [of g v h edge pnt ts e outline]
    by (simp add: assms(5))
  have p1: "isSourceHandle h \<and> c = Some con \<and> cpoint con = Some pt \<longrightarrow>
       pstyle edge' = (pstyle edge)\<lparr>exitX := Some (px pt), exitY := Some (py pt)\<rparr> \<and>
       sourceC = Some con"
    using sty srcC previewStyle_source_fixed [of h con pt "pstyle edge"] by auto
  have p2: "\<not> isSourceHandle h \<and> isTargetHandle h \<and> c = Some con \<and> cpoint con = Some pt \<longrightarrow>
       pstyle edge' = (pstyle edge)\<lparr>entryX := Some (px pt), entryY := Some (py pt)\<rparr> \<and>
       targetC = Some con"
    using sty trgC previewStyle_target_fixed [of h con pt "pstyle edge"] by auto
  have p3: "isSourceHandle h \<and> (c = None \<or> (\<exists>con'. c = Some con' \<and> cpoint con' = None)) \<longrightarrow>
       pstyle edge' = (pstyle edge)\<lparr>exitX := None, exitY := None\<rparr>"
    using sty previewStyle_source_free [of h c "pstyle edge"] by auto
  have p4: "\<not> isSourceHandle h \<and> isTargetHandle h \<and>
     (c = None \<or> (\<exists>con'. c = Some con' \<and> cpoint con' = None)) \<longrightarrow>
       pstyle edge' = (pstyle edge)\<lparr>entryX := None, entryY := None\<rparr>"
    using sty previewStyle_target_free [of h c "pstyle edge"] by auto
  have p5: "cpoint con = Some pt \<longrightarrow>
       resolveConstraint perimeter (Some con) b nearPoint
         = \<lparr>px = rx b + px pt * width b, py = ry b + py pt * height b\<rparr>"
    using resolveConstraint_fixed [of con pt perimeter b nearPoint] by blast
  have p6: "cpoint con = Some \<lparr>px = 1 / 2, py = 1\<rparr> \<longrightarrow>
       resolveConstraint perimeter (Some con) b nearPoint
         = \<lparr>px = rx b + width b / 2, py = ry b + height b\<rparr>"
    using resolveConstraint_fixed [of con "\<lparr>px = 1 / 2, py = 1\<rparr>" perimeter b nearPoint]
    by simp
  from p1 p2 p3 p4 p5 p6 show ?thesis by (intro conjI)
qed

theorem preview_fixed_constraint_witness:
  "pstyle (fst (updatePreviewState graphEnv0 viewEnv0 handlerS previewEdge0
       \<lparr>px = 40, py = 30\<rparr> (Some 1) event0 False))
     = style0\<lparr>exitX := Some (1 / 2), exitY := Some 1, entryX := Some 0\<rparr> \<and>
   pstyle (fst (updatePreviewState graphEnv0 viewEnv0 handlerD previewEdge0
       \<lparr>px = 19, py = 1\<rparr> None event0 False))
     = style0\<lparr>exitX := Some 1\<rparr> \<and>
   resolveConstraint (\<lambda>b n. n) (Some bottomCenter)
       \<lparr>rx = 0, ry = 0, width = 80, height = 30\<rparr> \<lparr>px = 500, py = - 3\<rparr>
     = \<lparr>px = 40, py = 30\<rparr>"
proof -
  have pres: "\<forall>ed t s c. pstyle (updateFixedTerminalPoint viewEnv0 ed t s c) = pstyle ed"
    "\<forall>p s ed. pstyle (setAbsoluteTerminalPoint viewEnv0 p s ed) = pstyle ed"
    "\<forall>ed pts s t. pstyle (updateRouterPoints viewEnv0 ed pts s t) = pstyle ed"
    "\<forall>ed s t. pstyle (updateFloatingTerminalPoints viewEnv0 ed s t) = pstyle ed"
    by (simp_all add: viewEnv0_def)
  have cS: "fst (previewConstraint viewEnv0 handlerS \<lparr>px = 40, py = 30\<rparr> (Some 1) event0 False)
      = Some bottomCenter"
    by (simp add: previewConstraint_def handlerS_def)
  have cD: "fst (previewConstraint viewEnv0 handlerD \<lparr>px = 19, py = 1\<rparr> None event0 False)
      = None"
    by (simp add: previewConstraint_def handlerD_def handler0_def)
  have hS: "isSourceHandle handlerS" by (simp add: handlerS_def)
  have bc: "cpoint bottomCenter = Some \<lparr>px = 1 / 2, py = 1\<rparr>" by (simp add: bottomCenter_def)
  obtain e1 h1 s1 t1 where r1: "updatePreviewState graphEnv0 viewEnv0 handlerS previewEdge0
       \<lparr>px = 40, py = 30\<rparr> (Some 1) event0 False = (e1, h1, s1, t1)"
    by (rule prod_cases4)
  obtain e2 h2 s2 t2 where r2: "updatePreviewState graphEnv0 viewEnv0 handlerD previewEdge0
       \<lparr>px = 19, py = 1\<rparr> None event0 False = (e2, h2, s2, t2)"
    by (rule prod_cases4)
  note i1 = preview_fixed_constraint [OF pres cS r1, where con = bottomCenter
      and pt = "\<lparr>px = 1 / 2, py = 1\<rparr>" and perimeter = "\<lambda>b n. n"
      and b = "\<lparr>rx = 0, ry = 0, width = 80, height = 30\<rparr>"
      and nearPoint = "\<lparr>px = 500, py = - 3\<rparr>"]
  note i2 = preview_fixed_constraint [OF pres cD r2]
  have "pstyle e1 = style0\<lparr>exitX := Some (1 / 2), exitY := Some 1, entryX := Some 0\<rparr>"
    using i1 hS bc by (simp add: previewEdge0_def style0_def)
  moreover have "pstyle e2 = style0\<lparr>exitX := Some 1\<rparr>"
    using i2 handlerD_facts(5,6) by (simp add: previewEdge0_def style0_def)
  moreover have "resolveConstraint (\<lambda>b n. n) (Some bottomCenter)
       \<lparr>rx = 0, ry = 0, width = 80, height = 30\<rparr> \<lparr>px = 500, py = - 3\<rparr>
     = \<lparr>px = 40, py = 30\<rparr>"
    using i1 bc by simp
  moreover have "fst (updatePreviewState graphEnv0 viewEnv0 handlerS previewEdge0
       \<lparr>px = 40, py = 30\<rparr> (Some 1) event0 False) = e1"
    by (simp only: r1 fst_conv)
  moreover have "fst (updatePreviewState graphEnv0 viewEnv0 handlerD previewEdge0
       \<lparr>px = 19, py = 1\<rparr> None event0 False) = e2"
    by (simp only: r2 fst_conv)
  ultimately show ?thesis by metis
qed

end
